theory Spec2Isabelle
  imports Main "HOL-Library.Word"
begin

section \<open>The A64 JIT coordinator of \<^verbatim>\<open>backend_x64/a64_interface.cpp\<close>\<close>

text \<open>
  The theory embeds \<^verbatim>\<open>Jit::Impl\<close>: the execution driver (\<^verbatim>\<open>Run\<close>), the
  invalidation manager (\<^verbatim>\<open>ClearCache\<close>, \<^verbatim>\<open>InvalidateCacheRange\<close>,
  \<^verbatim>\<open>RequestCacheInvalidation\<close>, \<^verbatim>\<open>PerformRequestedCacheInvalidation\<close>), the lazy
  lookup and compile path (\<^verbatim>\<open>GetCurrentBlock\<close>) and the guest state accessors.
  Member functions take the object as an explicit state and return it updated.
  A function that can throw or hit an assertion returns a pair: the error or the value,
  and the state the object has at that moment.
\<close>

subsection \<open>Machine types and errors\<close>

type_synonym u64 = "64 word"
type_synonym u32 = "32 word"

text \<open>\<^verbatim>\<open>size_t\<close> of the x64 backend: 64 bits, unsigned, wrapping.\<close>
type_synonym size_t = "64 word"

text \<open>
  \<^verbatim>\<open>AssertionFailed\<close>: a failed \<^verbatim>\<open>ASSERT\<close>. \<^verbatim>\<open>OutOfRange\<close>: the
  \<^verbatim>\<open>std::out_of_range\<close> thrown by \<^verbatim>\<open>std::array::at\<close>.
\<close>
datatype error = AssertionFailed | OutOfRange

text \<open>\<^verbatim>\<open>std::array::at\<close>, reading: bounds-checked against the array's size.\<close>
definition at :: "'a list \<Rightarrow> size_t \<Rightarrow> error + 'a" where
  "at xs i = (if unat i < length xs then Inr (xs ! unat i) else Inl OutOfRange)"

text \<open>\<^verbatim>\<open>xs.at(i) = v\<close>: the same check, then the store.\<close>
definition at_put :: "'a list \<Rightarrow> size_t \<Rightarrow> 'a \<Rightarrow> error + 'a list" where
  "at_put xs i v = (if unat i < length xs then Inr (xs[unat i := v]) else Inl OutOfRange)"

subsection \<open>Guest state\<close>

text \<open>
  Modelled from the spec: \<^verbatim>\<open>IR::LocationDescriptor\<close> and
  \<^verbatim>\<open>A64JitState::GetUniqueHash\<close> (\<^verbatim>\<open>frontend/ir\<close> and
  \<^verbatim>\<open>backend_x64/a64_jitstate.h\<close> are not part of the sources at hand). The context
  key is determined by the program counter and the mode bits that affect code generation;
  here the pair of the program counter and the floating-point control word.
\<close>
type_synonym LocationDescriptor = "u64 \<times> u32"

text \<open>A host code pointer, as an offset into the code buffer.\<close>
type_synonym CodePtr = nat

text \<open>
  Modelled from the spec: \<^verbatim>\<open>A64JitState\<close> (declared in
  \<^verbatim>\<open>backend_x64/a64_jitstate.h\<close>). The fields the interface touches: the general
  registers \<^verbatim>\<open>reg\<close> and the vector halves \<^verbatim>\<open>vec\<close> (both \<^verbatim>\<open>std::array\<close>s:
  the list's length is the array's size), \<^verbatim>\<open>sp\<close>, \<^verbatim>\<open>pc\<close>, the floating-point
  control word, the halt-request flag and the return stack buffer, a list of predicted
  return targets that \<^verbatim>\<open>ResetRSB\<close> empties.
\<close>
record A64JitState =
  reg :: "u64 list"
  sp :: u64
  pc :: u64
  vec :: "u64 list"
  fpcr :: u32
  halt_requested :: bool
  rsb :: "(LocationDescriptor \<times> CodePtr) list"

text \<open>
  Modelled from the spec: the value-initialised state \<^verbatim>\<open>A64JitState{}\<close>, "the
  zero/initial context", for arrays of the given sizes.
\<close>
definition A64JitState_init :: "nat \<Rightarrow> nat \<Rightarrow> A64JitState" where
  "A64JitState_init nr nv =
     \<lparr>reg = replicate nr 0, sp = 0, pc = 0, vec = replicate nv 0, fpcr = 0,
      halt_requested = False, rsb = []\<rparr>"

definition ResetRSB :: "A64JitState \<Rightarrow> A64JitState" where
  "ResetRSB js = js\<lparr>rsb := []\<rparr>"

definition GetUniqueHash :: "A64JitState \<Rightarrow> LocationDescriptor" where
  "GetUniqueHash js = (pc js, fpcr js)"

text \<open>\<^verbatim>\<open>Jit::Vector\<close>: the low and the high half of a vector register.\<close>
record Vector =
  low :: u64
  high :: u64

subsection \<open>The collaborators\<close>

text \<open>
  Modelled from the spec: \<^verbatim>\<open>IR::Block\<close>. A translated block starts at a location
  and covers the guest addresses from its start up to \<^verbatim>\<open>ir_end\<close>, exclusive.
\<close>
record IRBlock =
  ir_location :: LocationDescriptor
  ir_end :: u64
  ir_insts :: "nat list"

text \<open>
  The parts of the collaborators that are pure functions, taken as parameters: the host's
  \<^verbatim>\<open>MemoryReadCode\<close> callback, \<^verbatim>\<open>A64::Translate\<close>, the two optimisation passes
  (\<^verbatim>\<open>VerificationPass\<close> gives whether the block passes; a block that does not is a
  failed assertion) and the size of the host code the emitter produces for a block.
\<close>
record Collaborators =
  MemoryReadCode :: "u64 \<Rightarrow> u32"
  Translate :: "LocationDescriptor \<Rightarrow> (u64 \<Rightarrow> u32) \<Rightarrow> IRBlock"
  DeadCodeElimination :: "IRBlock \<Rightarrow> IRBlock"
  VerificationPass :: "IRBlock \<Rightarrow> bool"
  EmittedSize :: "IRBlock \<Rightarrow> nat"

text \<open>
  Modelled from the spec: \<^verbatim>\<open>BlockOfCode\<close>, the code buffer runtime. It owns the
  executable memory, reports the remaining capacity and clears all of it.
\<close>
record BlockOfCode =
  code_capacity :: nat
  code_used :: nat

definition SpaceRemaining :: "BlockOfCode \<Rightarrow> nat" where
  "SpaceRemaining b = code_capacity b - code_used b"

definition BlockOfCode_ClearCache :: "BlockOfCode \<Rightarrow> BlockOfCode" where
  "BlockOfCode_ClearCache b = b\<lparr>code_used := 0\<rparr>"

text \<open>
  Modelled from the spec: a compiled block, "keyed by context key; has a starting guest
  address, an extent (implicitly the guest addresses it covers), and a host entry point".
\<close>
record BlockDescriptor =
  entrypoint :: CodePtr
  block_first :: u64
  block_last :: u64

text \<open>
  Modelled from the spec: \<^verbatim>\<open>A64EmitX64\<close>, the cache and emit collaborator:
  "lookup-by-context-key returning an optional existing entry point; compile-and-register
  taking an optimized block and returning its entry point; clear-all;
  invalidate-by-range-set". The block table is an association list, newest first.
\<close>
record A64EmitX64 =
  block_descriptors :: "(LocationDescriptor \<times> BlockDescriptor) list"

definition GetBasicBlock :: "A64EmitX64 \<Rightarrow> LocationDescriptor \<Rightarrow> BlockDescriptor option" where
  "GetBasicBlock em loc = map_of (block_descriptors em) loc"

definition Emit ::
  "Collaborators \<Rightarrow> IRBlock \<Rightarrow> BlockOfCode \<Rightarrow> A64EmitX64
     \<Rightarrow> BlockDescriptor \<times> BlockOfCode \<times> A64EmitX64" where
  "Emit c ir b em =
     (let d = \<lparr>entrypoint = code_used b, block_first = fst (ir_location ir),
                block_last = ir_end ir - 1\<rparr>
      in (d, b\<lparr>code_used := code_used b + EmittedSize c ir\<rparr>,
          em\<lparr>block_descriptors := (ir_location ir, d) # block_descriptors em\<rparr>))"

definition Emitter_ClearCache :: "A64EmitX64 \<Rightarrow> A64EmitX64" where
  "Emitter_ClearCache em = em\<lparr>block_descriptors := []\<rparr>"

text \<open>
  \<^verbatim>\<open>boost::icl::interval_set<u64>\<close> is the set of the addresses in its intervals
  (overlapping and touching intervals are joined, so the set determines the
  representation). \<^verbatim>\<open>closed(lo, hi)\<close> is \<open>{lo..hi}\<close>, empty when \<open>hi < lo\<close>;
  \<^verbatim>\<open>add\<close> is union, \<^verbatim>\<open>clear\<close> gives the empty set.
\<close>
type_synonym interval_set = "u64 set"

definition InvalidateCacheRanges :: "A64EmitX64 \<Rightarrow> interval_set \<Rightarrow> A64EmitX64" where
  "InvalidateCacheRanges em ranges =
     em\<lparr>block_descriptors :=
          filter (\<lambda>(loc, d). {block_first d..block_last d} \<inter> ranges = {})
            (block_descriptors em)\<rparr>"

subsection \<open>The coordinator\<close>

text \<open>
  The calls the coordinator makes to its collaborators and its writes to
  \<^verbatim>\<open>is_executing\<close>, in program order. The list is not a member of the C++ object: it
  records the order of the effects, which the final state alone does not show.
\<close>
datatype event =
    EvSetExecuting bool
  | EvRunCode
  | EvResetRSB
  | EvBlockOfCodeClearCache
  | EvEmitterClearCache
  | EvInvalidateCacheRanges interval_set
  | EvGetBasicBlock LocationDescriptor
  | EvSpaceRemaining
  | EvTranslate LocationDescriptor
  | EvDeadCodeElimination
  | EvVerificationPass
  | EvEmit LocationDescriptor

text \<open>The members of \<^verbatim>\<open>Jit::Impl\<close> (\<^verbatim>\<open>conf\<close> is the parameter above).\<close>
record Impl =
  is_executing :: bool
  jit_state :: A64JitState
  block_of_code :: BlockOfCode
  emitter :: A64EmitX64
  invalidate_entire_cache :: bool
  invalid_cache_ranges :: interval_set
  calls :: "event list"

definition record_call :: "event \<Rightarrow> Impl \<Rightarrow> Impl" where
  "record_call e s = s\<lparr>calls := calls s @ [e]\<rparr>"

definition PerformRequestedCacheInvalidation :: "Impl \<Rightarrow> Impl" where
  "PerformRequestedCacheInvalidation s =
     (if \<not> invalidate_entire_cache s \<and> invalid_cache_ranges s = {} then s
      else
        let s1 = record_call EvResetRSB (s\<lparr>jit_state := ResetRSB (jit_state s)\<rparr>);
            s2 = (if invalidate_entire_cache s1
                  then
                    let t1 = record_call EvBlockOfCodeClearCache
                               (s1\<lparr>block_of_code := BlockOfCode_ClearCache (block_of_code s1)\<rparr>)
                    in record_call EvEmitterClearCache
                         (t1\<lparr>emitter := Emitter_ClearCache (emitter t1)\<rparr>)
                  else
                    record_call (EvInvalidateCacheRanges (invalid_cache_ranges s1))
                      (s1\<lparr>emitter :=
                            InvalidateCacheRanges (emitter s1) (invalid_cache_ranges s1)\<rparr>));
            s3 = s2\<lparr>invalid_cache_ranges := {}\<rparr>
        in s3\<lparr>invalidate_entire_cache := False\<rparr>)"

definition RequestCacheInvalidation :: "Impl \<Rightarrow> Impl" where
  "RequestCacheInvalidation s =
     (if is_executing s
      then s\<lparr>jit_state := (jit_state s)\<lparr>halt_requested := True\<rparr>\<rparr>
      else PerformRequestedCacheInvalidation s)"

definition ClearCache :: "Impl \<Rightarrow> Impl" where
  "ClearCache s = RequestCacheInvalidation (s\<lparr>invalidate_entire_cache := True\<rparr>)"

definition InvalidateCacheRange :: "u64 \<Rightarrow> size_t \<Rightarrow> Impl \<Rightarrow> Impl" where
  "InvalidateCacheRange start_address len s =
     (let end_address = start_address + len - 1;
          range = {start_address..end_address}
      in RequestCacheInvalidation
           (s\<lparr>invalid_cache_ranges := invalid_cache_ranges s \<union> range\<rparr>))"

text \<open>
  Modelled from the spec: a failed \<^verbatim>\<open>ASSERT\<close> (\<^verbatim>\<open>common/assert.h\<close>) is fatal. The
  function stops there with \<^verbatim>\<open>AssertionFailed\<close> and the state as it is.
\<close>
definition Reset :: "Impl \<Rightarrow> (error + unit) \<times> Impl" where
  "Reset s =
     (if is_executing s then (Inl AssertionFailed, s)
      else (Inr (),
            s\<lparr>jit_state :=
                A64JitState_init (length (reg (jit_state s))) (length (vec (jit_state s)))\<rparr>))"

definition HaltExecution :: "Impl \<Rightarrow> Impl" where
  "HaltExecution s = s\<lparr>jit_state := (jit_state s)\<lparr>halt_requested := True\<rparr>\<rparr>"

definition GetSP :: "Impl \<Rightarrow> u64" where
  "GetSP s = sp (jit_state s)"

definition SetSP :: "u64 \<Rightarrow> Impl \<Rightarrow> Impl" where
  "SetSP v s = s\<lparr>jit_state := (jit_state s)\<lparr>sp := v\<rparr>\<rparr>"

definition GetPC :: "Impl \<Rightarrow> u64" where
  "GetPC s = pc (jit_state s)"

definition SetPC :: "u64 \<Rightarrow> Impl \<Rightarrow> Impl" where
  "SetPC v s = s\<lparr>jit_state := (jit_state s)\<lparr>pc := v\<rparr>\<rparr>"

definition GetRegister :: "size_t \<Rightarrow> Impl \<Rightarrow> error + u64" where
  "GetRegister index s =
     (if index = 31 then Inr (GetSP s) else at (reg (jit_state s)) index)"

definition SetRegister :: "size_t \<Rightarrow> u64 \<Rightarrow> Impl \<Rightarrow> (error + unit) \<times> Impl" where
  "SetRegister index v s =
     (if index = 31 then (Inr (), SetSP v s)
      else case at_put (reg (jit_state s)) index v of
             Inl e \<Rightarrow> (Inl e, s)
           | Inr r \<Rightarrow> (Inr (), s\<lparr>jit_state := (jit_state s)\<lparr>reg := r\<rparr>\<rparr>))"

definition GetVector :: "size_t \<Rightarrow> Impl \<Rightarrow> error + Vector" where
  "GetVector index s =
     (case at (vec (jit_state s)) (index * 2) of
        Inl e \<Rightarrow> Inl e
      | Inr l \<Rightarrow>
          (case at (vec (jit_state s)) (index * 2 + 1) of
             Inl e \<Rightarrow> Inl e
           | Inr h \<Rightarrow> Inr \<lparr>low = l, high = h\<rparr>))"

text \<open>
  The two stores of \<^verbatim>\<open>SetVector\<close> are separate statements: when the second one
  throws, the first has been made.
\<close>
definition SetVector :: "size_t \<Rightarrow> Vector \<Rightarrow> Impl \<Rightarrow> (error + unit) \<times> Impl" where
  "SetVector index v s =
     (case at_put (vec (jit_state s)) (index * 2) (low v) of
        Inl e \<Rightarrow> (Inl e, s)
      | Inr v1 \<Rightarrow>
          (let s1 = s\<lparr>jit_state := (jit_state s)\<lparr>vec := v1\<rparr>\<rparr>
           in case at_put (vec (jit_state s1)) (index * 2 + 1) (high v) of
                Inl e \<Rightarrow> (Inl e, s1)
              | Inr v2 \<Rightarrow> (Inr (), s1\<lparr>jit_state := (jit_state s1)\<lparr>vec := v2\<rparr>\<rparr>)))"

definition IsExecuting :: "Impl \<Rightarrow> bool" where
  "IsExecuting s = is_executing s"

definition MINIMUM_REMAINING_CODESIZE :: nat where
  "MINIMUM_REMAINING_CODESIZE = 1 * 1024 * 1024"

definition GetCurrentBlock :: "Collaborators \<Rightarrow> Impl \<Rightarrow> (error + CodePtr) \<times> Impl" where
  "GetCurrentBlock c s =
     (let current_location = GetUniqueHash (jit_state s);
          s0 = record_call (EvGetBasicBlock current_location) s
      in case GetBasicBlock (emitter s0) current_location of
           Some block \<Rightarrow> (Inr (entrypoint block), s0)
         | None \<Rightarrow>
             (let s1 = record_call EvSpaceRemaining s0;
                  s2 = (if SpaceRemaining (block_of_code s1) < MINIMUM_REMAINING_CODESIZE
                        then PerformRequestedCacheInvalidation
                               (s1\<lparr>invalidate_entire_cache := True\<rparr>)
                        else s1);
                  ir_block = Translate c current_location (MemoryReadCode c);
                  s3 = record_call (EvTranslate current_location) s2;
                  ir_block' = DeadCodeElimination c ir_block;
                  s4 = record_call EvDeadCodeElimination s3;
                  s5 = record_call EvVerificationPass s4
              in if \<not> VerificationPass c ir_block' then (Inl AssertionFailed, s5)
                 else
                   (case Emit c ir_block' (block_of_code s5) (emitter s5) of
                      (d, b, em) \<Rightarrow>
                        (Inr (entrypoint d),
                         record_call (EvEmit (ir_location ir_block'))
                           (s5\<lparr>block_of_code := b, emitter := em\<rparr>)))))"

text \<open>
  Modelled from the spec: \<^verbatim>\<open>BlockOfCode::RunCode\<close> transfers control to generated
  code, which calls back into the coordinator on the same call stack. What the generated
  code and the host callbacks it invokes do is a parameter: the list of their calls, in
  order. A call that fails fatally ends the run there.
\<close>
datatype callback =
    LookupBlock
  | CallClearCache
  | CallInvalidateCacheRange u64 size_t
  | CallHaltExecution
  | CallSetPC u64
  | CallReset
  | CallRun "callback list"

text \<open>
  \<^verbatim>\<open>Run\<close>. The \<^verbatim>\<open>SCOPE_EXIT\<close> handler runs when the function's scope is left,
  after its last statement. A fatal failure inside the generated code's callbacks ends
  the process: nothing of \<^verbatim>\<open>Run\<close> runs after it.
\<close>
fun Run :: "Collaborators \<Rightarrow> callback list \<Rightarrow> Impl \<Rightarrow> (error + unit) \<times> Impl"
  and RunCode :: "Collaborators \<Rightarrow> callback list \<Rightarrow> Impl \<Rightarrow> (error + unit) \<times> Impl"
  and invoke_all :: "Collaborators \<Rightarrow> callback list \<Rightarrow> Impl \<Rightarrow> (error + unit) \<times> Impl"
  and invoke :: "Collaborators \<Rightarrow> callback \<Rightarrow> Impl \<Rightarrow> (error + unit) \<times> Impl"
where
  "Run c cs s =
     (if is_executing s then (Inl AssertionFailed, s)
      else
        let s1 = record_call (EvSetExecuting True) (s\<lparr>is_executing := True\<rparr>);
            s2 = s1\<lparr>jit_state := (jit_state s1)\<lparr>halt_requested := False\<rparr>\<rparr>
        in case RunCode c cs s2 of
             (Inl e, s3) \<Rightarrow> (Inl e, s3)
           | (Inr u, s3) \<Rightarrow>
               (let s4 = PerformRequestedCacheInvalidation s3
                in (Inr (), record_call (EvSetExecuting False) (s4\<lparr>is_executing := False\<rparr>))))"
| "RunCode c cs s = invoke_all c cs (record_call EvRunCode s)"
| "invoke_all c [] s = (Inr (), s)"
| "invoke_all c (cb # cbs) s =
     (case invoke c cb s of
        (Inl e, s') \<Rightarrow> (Inl e, s')
      | (Inr u, s') \<Rightarrow> invoke_all c cbs s')"
| "invoke c LookupBlock s =
     (case GetCurrentBlock c s of
        (Inl e, s') \<Rightarrow> (Inl e, s')
      | (Inr p, s') \<Rightarrow> (Inr (), s'))"
| "invoke c CallClearCache s = (Inr (), ClearCache s)"
| "invoke c (CallInvalidateCacheRange a n) s = (Inr (), InvalidateCacheRange a n s)"
| "invoke c CallHaltExecution s = (Inr (), HaltExecution s)"
| "invoke c (CallSetPC v) s = (Inr (), SetPC v s)"
| "invoke c CallReset s = Reset s"
| "invoke c (CallRun cs) s = Run c cs s"

text \<open>
  The constructor \<^verbatim>\<open>Impl(conf)\<close> with the default member initialisers: idle, a
  fresh guest state, an empty code buffer of the given capacity, an empty block table and
  nothing to invalidate. The sizes of the two register arrays are arguments.
\<close>
definition Impl_new :: "nat \<Rightarrow> nat \<Rightarrow> nat \<Rightarrow> Impl" where
  "Impl_new nr nv cap =
     \<lparr>is_executing = False, jit_state = A64JitState_init nr nv,
      block_of_code = \<lparr>code_capacity = cap, code_used = 0\<rparr>,
      emitter = \<lparr>block_descriptors = []\<rparr>,
      invalidate_entire_cache = False, invalid_cache_ranges = {}, calls = []\<rparr>"

text \<open>The state in which \<^verbatim>\<open>Run\<close> calls \<^verbatim>\<open>RunCode\<close>.\<close>
definition Run_entry :: "Impl \<Rightarrow> Impl" where
  "Run_entry s =
     s\<lparr>is_executing := True,
       jit_state := (jit_state s)\<lparr>halt_requested := False\<rparr>,
       calls := calls s @ [EvSetExecuting True]\<rparr>"

subsection \<open>Notions of the specification\<close>

text \<open>
  The byte range \<open>[start, start + len)\<close> of an invalidation request, as a set of
  addresses: the bound is computed without wrap-around.
\<close>
definition byte_range :: "u64 \<Rightarrow> size_t \<Rightarrow> u64 set" where
  "byte_range start len = {x. unat start \<le> unat x \<and> unat x < unat start + unat len}"

text \<open>
  What draining is specified to perform, as calls: a reset of the return stack buffer, then
  either the full clear of the code buffer and of the block table, or the invalidation of
  the recorded ranges; nothing when nothing is pending.
\<close>
definition drain_calls :: "Impl \<Rightarrow> event list" where
  "drain_calls s =
     (if invalidate_entire_cache s
      then [EvResetRSB, EvBlockOfCodeClearCache, EvEmitterClearCache]
      else if invalid_cache_ranges s \<noteq> {}
      then [EvResetRSB, EvInvalidateCacheRanges (invalid_cache_ranges s)]
      else [])"

text \<open>The calls that invalidate: the drain's reset, the two clears and the range call.\<close>
fun is_drain_event :: "event \<Rightarrow> bool" where
  "is_drain_event EvResetRSB = True"
| "is_drain_event EvBlockOfCodeClearCache = True"
| "is_drain_event EvEmitterClearCache = True"
| "is_drain_event (EvInvalidateCacheRanges R) = True"
| "is_drain_event e = False"

text \<open>
  No lookup of the generated code misses under the low-water mark: every
  \<^verbatim>\<open>LookupBlock\<close> among the callbacks finds, in the state it is made in, either its
  block or at least the low-water mark of code space.
\<close>
fun no_pressure_miss :: "Collaborators \<Rightarrow> callback list \<Rightarrow> Impl \<Rightarrow> bool" where
  "no_pressure_miss c [] s = True"
| "no_pressure_miss c (cb # cbs) s =
     ((cb \<noteq> LookupBlock
        \<or> GetBasicBlock (emitter s) (GetUniqueHash (jit_state s)) \<noteq> None
        \<or> \<not> SpaceRemaining (block_of_code s) < MINIMUM_REMAINING_CODESIZE)
      \<and> no_pressure_miss c cbs (snd (invoke c cb s)))"

subsection \<open>Example inputs\<close>

text \<open>
  Collaborators for the examples: every instruction word reads as 0, a block is one
  instruction of four bytes, the optimisation changes nothing, verification passes and
  every block takes 64 bytes of host code.
\<close>
definition example_collaborators :: Collaborators where
  "example_collaborators =
     \<lparr>MemoryReadCode = (\<lambda>a. 0),
      Translate = (\<lambda>loc mem.
         \<lparr>ir_location = loc, ir_end = fst loc + 4, ir_insts = [unat (mem (fst loc))]\<rparr>),
      DeadCodeElimination = (\<lambda>b. b),
      VerificationPass = (\<lambda>b. True),
      EmittedSize = (\<lambda>b. 64)\<rparr>"

text \<open>A fresh A64 coordinator: 31 general registers, 64 vector halves, 128 MiB of code.\<close>
definition fresh_example :: Impl where
  "fresh_example = Impl_new 31 64 (128 * 1024 * 1024)"

text \<open>The same with a code buffer of 1 MiB and 63 bytes: one block brings it under the mark.\<close>
definition tight_example :: Impl where
  "tight_example = Impl_new 31 64 (1024 * 1024 + 63)"

text \<open>The fresh coordinator in the middle of a run.\<close>
definition executing_example :: Impl where
  "executing_example = fresh_example\<lparr>is_executing := True\<rparr>"

text \<open>
  An idle coordinator that holds the compiled block of address \<open>0x1000\<close> and one
  return prediction.
\<close>
definition compiled_example :: Impl where
  "compiled_example =
     \<lparr>is_executing = False,
      jit_state = (A64JitState_init 31 64)\<lparr>pc := 0x1000, rsb := [((0x1000, 0), 0)]\<rparr>,
      block_of_code = \<lparr>code_capacity = 128 * 1024 * 1024, code_used = 64\<rparr>,
      emitter = \<lparr>block_descriptors =
        [((0x1000, 0), \<lparr>entrypoint = 0, block_first = 0x1000, block_last = 0x1003\<rparr>)]\<rparr>,
      invalidate_entire_cache = False, invalid_cache_ranges = {}, calls = []\<rparr>"

text \<open>
  The same coordinator about to look up address \<open>0x2000\<close>, with less than the
  low-water mark of code buffer left.
\<close>
definition pressured_example :: Impl where
  "pressured_example =
     compiled_example
       \<lparr>jit_state := (jit_state compiled_example)\<lparr>pc := 0x2000\<rparr>,
        block_of_code := \<lparr>code_capacity = 1024 * 1024 + 63, code_used = 64\<rparr>\<rparr>"

text \<open>
  Generated code that compiles the block of \<open>0x1000\<close> and has the host request the
  invalidation of its four bytes; and the same going on to look up \<open>0x2000\<close>.
\<close>
definition compile_then_request :: "callback list" where
  "compile_then_request = [CallSetPC 0x1000, LookupBlock, CallInvalidateCacheRange 0x1000 4]"

definition request_then_lookup :: "callback list" where
  "request_then_lookup = compile_then_request @ [CallSetPC 0x2000, LookupBlock]"

text \<open>
  An idle coordinator that holds the compiled block of the last four bytes of the address
  space.
\<close>
definition top_block_example :: Impl where
  "top_block_example =
     \<lparr>is_executing = False,
      jit_state = (A64JitState_init 31 64)\<lparr>pc := 0xFFFFFFFFFFFFFFFC\<rparr>,
      block_of_code = \<lparr>code_capacity = 128 * 1024 * 1024, code_used = 64\<rparr>,
      emitter = \<lparr>block_descriptors =
        [((0xFFFFFFFFFFFFFFFC, 0),
          \<lparr>entrypoint = 0, block_first = 0xFFFFFFFFFFFFFFFC,
           block_last = 0xFFFFFFFFFFFFFFFF\<rparr>)]\<rparr>,
      invalidate_entire_cache = False, invalid_cache_ranges = {}, calls = []\<rparr>"

section \<open>Properties\<close>

lemmas coordinator_defs =
  PerformRequestedCacheInvalidation_def RequestCacheInvalidation_def ClearCache_def
  InvalidateCacheRange_def record_call_def ResetRSB_def BlockOfCode_ClearCache_def
  Emitter_ClearCache_def InvalidateCacheRanges_def

lemmas lookup_defs =
  GetCurrentBlock_def GetUniqueHash_def GetBasicBlock_def SpaceRemaining_def
  MINIMUM_REMAINING_CODESIZE_def Emit_def

lemmas example_defs =
  fresh_example_def tight_example_def executing_example_def compiled_example_def
  pressured_example_def top_block_example_def compile_then_request_def
  request_then_lookup_def Impl_new_def example_collaborators_def A64JitState_init_def

subsection \<open>Guest state accessors\<close>

text \<open>
  C4. Register index 31 is the stack pointer in both directions: for every value \<open>v\<close>,
  \<^verbatim>\<open>SetRegister(31, v)\<close> is \<^verbatim>\<open>SetSP(v)\<close>, \<^verbatim>\<open>GetSP()\<close> after it returns
  \<open>v\<close>, \<^verbatim>\<open>GetRegister(31)\<close> after \<^verbatim>\<open>SetSP(v)\<close> returns \<open>v\<close>, and
  \<^verbatim>\<open>GetRegister(31)\<close> always equals \<^verbatim>\<open>GetSP()\<close>.
\<close>
theorem register_31_is_sp:
  "SetRegister 31 v s = (Inr (), SetSP v s) \<and>
   GetSP (snd (SetRegister 31 v s)) = v \<and>
   GetRegister 31 (SetSP v s) = Inr v \<and>
   GetRegister 31 s = Inr (GetSP s)"
  by (simp add: SetRegister_def GetRegister_def SetSP_def GetSP_def)

text \<open>
  The bounds checks that do hold: a register index other than 31 beyond the array, and a
  vector index below \<open>2^63\<close> whose halves lie beyond the array, throw.
\<close>
lemma GetRegister_out_of_range:
  "index \<noteq> 31 \<Longrightarrow> length (reg (jit_state s)) \<le> unat index \<Longrightarrow>
   GetRegister index s = Inl OutOfRange"
  by (simp add: GetRegister_def at_def)

lemma SetRegister_out_of_range:
  "index \<noteq> 31 \<Longrightarrow> length (reg (jit_state s)) \<le> unat index \<Longrightarrow>
   SetRegister index v s = (Inl OutOfRange, s)"
  by (simp add: SetRegister_def at_put_def)

lemma GetVector_out_of_range:
  assumes "unat index < 2 ^ 63" "length (vec (jit_state s)) \<le> 2 * unat index + 1"
  shows "GetVector index s = Inl OutOfRange"
proof -
  have a: "unat (index * 2) = 2 * unat index"
    using assms(1) by (simp add: unat_word_ariths)
  have b: "unat (index * 2 + 1) = 2 * unat index + 1"
    using assms(1) by (simp add: unat_word_ariths)
  show ?thesis using assms(2) by (simp add: GetVector_def at_def a b split: sum.split)
qed

lemma SetVector_out_of_range:
  assumes "unat index < 2 ^ 63" "length (vec (jit_state s)) \<le> 2 * unat index + 1"
  shows "fst (SetVector index v s) = Inl OutOfRange"
proof -
  have a: "unat (index * 2) = 2 * unat index"
    using assms(1) by (simp add: unat_word_ariths)
  have b: "unat (index * 2 + 1) = 2 * unat index + 1"
    using assms(1) by (simp add: unat_word_ariths)
  show ?thesis
    using assms(2) by (simp add: SetVector_def at_put_def a b Let_def split: sum.split)
qed

text \<open>
  C6. The claim: every register or vector index outside the valid range fails with an
  out-of-bounds error. The vector accessors compute \<^verbatim>\<open>index * 2\<close> in \<^verbatim>\<open>size_t\<close>
  before the checked access, and the product wraps: on a fresh coordinator with 32 vector
  registers, the index \<open>2^63\<close> reads vector register 0 and writes it, with no error.
\<close>
theorem vector_index_wraps:
  "GetVector 0x8000000000000000 (Impl_new 31 64 cap) = Inr \<lparr>low = 0, high = 0\<rparr>
   \<and> fst (SetVector 0x8000000000000000 \<lparr>low = 1, high = 2\<rparr> (Impl_new 31 64 cap)) = Inr ()
   \<and> GetVector 0
        (snd (SetVector 0x8000000000000000 \<lparr>low = 1, high = 2\<rparr> (Impl_new 31 64 cap)))
       = Inr \<lparr>low = 1, high = 2\<rparr>"
  by (simp add: GetVector_def SetVector_def at_def at_put_def Impl_new_def A64JitState_init_def
        Let_def)

subsection \<open>The drain\<close>

lemma Perform_calls: "calls (PerformRequestedCacheInvalidation s) = calls s @ drain_calls s"
  by (simp add: coordinator_defs drain_calls_def Let_def)

lemma Perform_nothing_pending:
  "\<not> invalidate_entire_cache (PerformRequestedCacheInvalidation s)"
  "invalid_cache_ranges (PerformRequestedCacheInvalidation s) = {}"
  by (simp_all add: coordinator_defs Let_def)

lemma Perform_is_executing:
  "is_executing (PerformRequestedCacheInvalidation s) = is_executing s"
  by (simp add: coordinator_defs Let_def)

text \<open>
  C10. When nothing is pending (the flag is false and the set is empty), the drain
  changes nothing: the state is the same, with its return stack buffer, its caches and
  its list of calls.
\<close>
theorem drain_nothing_pending:
  "\<not> invalidate_entire_cache s \<Longrightarrow> invalid_cache_ranges s = {} \<Longrightarrow>
   PerformRequestedCacheInvalidation s = s"
  by (simp add: PerformRequestedCacheInvalidation_def)

theorem drain_nothing_pending_witness:
  "\<not> invalidate_entire_cache compiled_example
   \<and> invalid_cache_ranges compiled_example = {}
   \<and> PerformRequestedCacheInvalidation compiled_example = compiled_example
   \<and> rsb (jit_state (PerformRequestedCacheInvalidation compiled_example)) = [((0x1000, 0), 0)]
   \<and> calls (PerformRequestedCacheInvalidation compiled_example) = []"
proof -
  have a: "\<not> invalidate_entire_cache compiled_example"
    and b: "invalid_cache_ranges compiled_example = {}"
    by (simp_all add: compiled_example_def)
  have c: "PerformRequestedCacheInvalidation compiled_example = compiled_example"
    using drain_nothing_pending [OF a b] .
  have d: "rsb (jit_state compiled_example) = [((0x1000, 0), 0)]"
    and e: "calls compiled_example = []"
    by (simp_all add: compiled_example_def)
  show ?thesis using a b d e by (simp add: c)
qed

subsection \<open>Clearing the cache\<close>

text \<open>
  C7. While idle, clearing the cache twice has the effect of clearing it once: the
  second call changes no member of the object (it only makes its three calls again), the
  block table is empty and every lookup misses after one call and after two, and the
  flag and the set of ranges end false and empty in both cases.
\<close>
theorem ClearCache_twice:
  "\<not> is_executing s \<Longrightarrow>
     ClearCache (ClearCache s) =
       (ClearCache s)\<lparr>calls := calls (ClearCache s) @
          [EvResetRSB, EvBlockOfCodeClearCache, EvEmitterClearCache]\<rparr>
   \<and> block_descriptors (emitter (ClearCache s)) = []
   \<and> (\<forall>loc. GetBasicBlock (emitter (ClearCache s)) loc = None
          \<and> GetBasicBlock (emitter (ClearCache (ClearCache s))) loc = None)
   \<and> \<not> invalidate_entire_cache (ClearCache s) \<and> invalid_cache_ranges (ClearCache s) = {}
   \<and> \<not> invalidate_entire_cache (ClearCache (ClearCache s))
   \<and> invalid_cache_ranges (ClearCache (ClearCache s)) = {}"
  by (simp add: coordinator_defs GetBasicBlock_def)

theorem ClearCache_twice_witness:
  "\<not> is_executing compiled_example
   \<and> GetBasicBlock (emitter compiled_example) (0x1000, 0) \<noteq> None
   \<and> GetBasicBlock (emitter (ClearCache compiled_example)) (0x1000, 0) = None
   \<and> GetBasicBlock (emitter (ClearCache (ClearCache compiled_example))) (0x1000, 0) = None
   \<and> emitter (ClearCache (ClearCache compiled_example)) = emitter (ClearCache compiled_example)
   \<and> block_of_code (ClearCache (ClearCache compiled_example))
       = block_of_code (ClearCache compiled_example)
   \<and> jit_state (ClearCache (ClearCache compiled_example))
       = jit_state (ClearCache compiled_example)"
proof -
  have idle: "\<not> is_executing compiled_example"
    by (simp add: compiled_example_def)
  note t = ClearCache_twice [OF idle]
  have hit: "GetBasicBlock (emitter compiled_example) (0x1000, 0) \<noteq> None"
    by (simp add: compiled_example_def GetBasicBlock_def)
  have eq: "ClearCache (ClearCache compiled_example) =
       (ClearCache compiled_example)\<lparr>calls := calls (ClearCache compiled_example) @
          [EvResetRSB, EvBlockOfCodeClearCache, EvEmitterClearCache]\<rparr>"
    using t by blast
  have same: "emitter (ClearCache (ClearCache compiled_example))
                = emitter (ClearCache compiled_example)"
    "block_of_code (ClearCache (ClearCache compiled_example))
       = block_of_code (ClearCache compiled_example)"
    "jit_state (ClearCache (ClearCache compiled_example))
       = jit_state (ClearCache compiled_example)"
    by (subst eq, simp)+
  show ?thesis using idle hit t same by blast
qed

subsection \<open>Reset\<close>

lemma GetRegister_init:
  "unat i < nr \<or> i = 31 \<Longrightarrow>
   GetRegister i (s\<lparr>jit_state := A64JitState_init nr nv\<rparr>) = Inr 0"
  by (auto simp: GetRegister_def GetSP_def at_def A64JitState_init_def)

text \<open>
  C5. Called while not executing, \<^verbatim>\<open>Reset\<close> replaces the guest state by the initial
  one and nothing else: every general register (and index 31, the stack pointer), the
  program counter and the stack pointer read 0, the halt-request flag is false, and the
  block table and the code buffer are the same, so that every lookup gives what it gave
  before.
\<close>
theorem Reset_guest_state_only:
  "\<not> is_executing s \<Longrightarrow>
     Reset s =
       (Inr (), s\<lparr>jit_state :=
                    A64JitState_init (length (reg (jit_state s))) (length (vec (jit_state s)))\<rparr>)
   \<and> (\<forall>i. unat i < length (reg (jit_state s)) \<or> i = 31 \<longrightarrow>
          GetRegister i (snd (Reset s)) = Inr 0)
   \<and> GetPC (snd (Reset s)) = 0 \<and> GetSP (snd (Reset s)) = 0
   \<and> \<not> halt_requested (jit_state (snd (Reset s)))
   \<and> emitter (snd (Reset s)) = emitter s \<and> block_of_code (snd (Reset s)) = block_of_code s
   \<and> (\<forall>loc. GetBasicBlock (emitter (snd (Reset s))) loc = GetBasicBlock (emitter s) loc)"
proof -
  assume idle: "\<not> is_executing s"
  let ?n = "length (reg (jit_state s))" and ?m = "length (vec (jit_state s))"
  have r: "Reset s = (Inr (), s\<lparr>jit_state := A64JitState_init ?n ?m\<rparr>)"
    using idle by (simp add: Reset_def)
  have g: "\<forall>i. unat i < ?n \<or> i = 31 \<longrightarrow> GetRegister i (snd (Reset s)) = Inr 0"
    unfolding r by (simp add: GetRegister_init)
  have rest: "GetPC (snd (Reset s)) = 0" "GetSP (snd (Reset s)) = 0"
    "\<not> halt_requested (jit_state (snd (Reset s)))"
    "emitter (snd (Reset s)) = emitter s" "block_of_code (snd (Reset s)) = block_of_code s"
    unfolding r by (simp_all add: GetPC_def GetSP_def A64JitState_init_def)
  show ?thesis using r g rest by simp
qed

theorem Reset_guest_state_only_witness:
  "\<not> is_executing compiled_example
   \<and> GetPC compiled_example = 0x1000
   \<and> GetPC (snd (Reset compiled_example)) = 0
   \<and> GetSP (snd (Reset compiled_example)) = 0
   \<and> GetRegister 30 (snd (Reset compiled_example)) = Inr 0
   \<and> GetRegister 31 (snd (Reset compiled_example)) = Inr 0
   \<and> GetBasicBlock (emitter (snd (Reset compiled_example))) (0x1000, 0)
       = Some \<lparr>entrypoint = 0, block_first = 0x1000, block_last = 0x1003\<rparr>"
proof -
  have idle: "\<not> is_executing compiled_example"
    by (simp add: compiled_example_def)
  note t = Reset_guest_state_only [OF idle]
  have n: "length (reg (jit_state compiled_example)) = 31"
    by (simp add: compiled_example_def A64JitState_init_def)
  have p: "GetPC compiled_example = 0x1000"
    by (simp add: compiled_example_def GetPC_def)
  have regs: "\<forall>i. unat i < length (reg (jit_state compiled_example)) \<or> i = 31 \<longrightarrow>
                  GetRegister i (snd (Reset compiled_example)) = Inr 0"
    using t by blast
  have r30: "GetRegister 30 (snd (Reset compiled_example)) = Inr 0"
    using regs [THEN spec, of 30] n by simp
  have r31: "GetRegister 31 (snd (Reset compiled_example)) = Inr 0"
    using regs [THEN spec, of 31] by simp
  have hit: "GetBasicBlock (emitter compiled_example) (0x1000, 0)
       = Some \<lparr>entrypoint = 0, block_first = 0x1000, block_last = 0x1003\<rparr>"
    by (simp add: compiled_example_def GetBasicBlock_def)
  have "emitter (snd (Reset compiled_example)) = emitter compiled_example"
    using t by blast
  then have hit': "GetBasicBlock (emitter (snd (Reset compiled_example))) (0x1000, 0)
       = Some \<lparr>entrypoint = 0, block_first = 0x1000, block_last = 0x1003\<rparr>"
    using hit by simp
  show ?thesis using idle p t r30 r31 hit' by blast
qed

subsection \<open>Reentrant calls\<close>

text \<open>
  C9. \<^verbatim>\<open>Run\<close> and \<^verbatim>\<open>Reset\<close>, called while the coordinator is executing, end in
  the failed assertion, and the state at that moment is the state of the call: nothing
  has been changed.
\<close>
theorem reentrant_call_asserts:
  "is_executing s \<Longrightarrow>
   Run c cs s = (Inl AssertionFailed, s) \<and> Reset s = (Inl AssertionFailed, s)"
  by (simp add: Reset_def)

theorem reentrant_call_asserts_witness:
  "is_executing executing_example
   \<and> Run example_collaborators [LookupBlock] executing_example
       = (Inl AssertionFailed, executing_example)
   \<and> Reset executing_example = (Inl AssertionFailed, executing_example)"
proof -
  have ex: "is_executing executing_example"
    by (simp add: executing_example_def)
  show ?thesis
    using ex reentrant_call_asserts [OF ex, of example_collaborators "[LookupBlock]"] by blast
qed

text \<open>
  The same from the outside: a run whose generated code calls \<^verbatim>\<open>Run\<close> or
  \<^verbatim>\<open>Reset\<close> again ends in the failed assertion.
\<close>
lemma nested_Run_asserts:
  "\<not> is_executing s \<Longrightarrow> fst (Run c (CallRun cs' # cs) s) = Inl AssertionFailed"
  "\<not> is_executing s \<Longrightarrow> fst (Run c (CallReset # cs) s) = Inl AssertionFailed"
  by (simp_all add: record_call_def Reset_def Let_def)

subsection \<open>The lazy lookup and compile path\<close>

text \<open>
  C3. \<^verbatim>\<open>GetCurrentBlock\<close>, for the context key of the current guest state. On a hit
  it returns the block's entry point, having made the lookup and no other call (no
  capacity check, no translation). On a miss it checks the remaining capacity; below the
  low-water mark it first clears everything (return stack buffer, code buffer, block table,
  pending invalidation); it then translates the current location, runs dead-code
  elimination, then the verification pass, emits the block and returns the new block's
  entry point. The calls are made in this order. A block that fails verification is a
  failed assertion; the miss cases are stated for a block that passes.
\<close>
theorem GetCurrentBlock_algorithm:
  "(GetBasicBlock (emitter s) (GetUniqueHash (jit_state s)) = Some b \<longrightarrow>
      GetCurrentBlock c s =
        (Inr (entrypoint b),
         s\<lparr>calls := calls s @ [EvGetBasicBlock (GetUniqueHash (jit_state s))]\<rparr>))
   \<and> (GetBasicBlock (emitter s) (GetUniqueHash (jit_state s)) = None
        \<and> ir = DeadCodeElimination c (Translate c (GetUniqueHash (jit_state s)) (MemoryReadCode c))
        \<and> VerificationPass c ir
        \<and> \<not> SpaceRemaining (block_of_code s) < MINIMUM_REMAINING_CODESIZE \<longrightarrow>
      GetCurrentBlock c s =
        (Inr (code_used (block_of_code s)),
         s\<lparr>block_of_code :=
             (block_of_code s)\<lparr>code_used := code_used (block_of_code s) + EmittedSize c ir\<rparr>,
           emitter := (emitter s)\<lparr>block_descriptors :=
              (ir_location ir,
               \<lparr>entrypoint = code_used (block_of_code s), block_first = fst (ir_location ir),
                block_last = ir_end ir - 1\<rparr>) # block_descriptors (emitter s)\<rparr>,
           calls := calls s @
              [EvGetBasicBlock (GetUniqueHash (jit_state s)), EvSpaceRemaining,
               EvTranslate (GetUniqueHash (jit_state s)), EvDeadCodeElimination,
               EvVerificationPass, EvEmit (ir_location ir)]\<rparr>))
   \<and> (GetBasicBlock (emitter s) (GetUniqueHash (jit_state s)) = None
        \<and> ir = DeadCodeElimination c (Translate c (GetUniqueHash (jit_state s)) (MemoryReadCode c))
        \<and> VerificationPass c ir
        \<and> SpaceRemaining (block_of_code s) < MINIMUM_REMAINING_CODESIZE \<longrightarrow>
      GetCurrentBlock c s =
        (Inr 0,
         s\<lparr>jit_state := (jit_state s)\<lparr>rsb := []\<rparr>,
           block_of_code := (block_of_code s)\<lparr>code_used := EmittedSize c ir\<rparr>,
           emitter := (emitter s)\<lparr>block_descriptors :=
              [(ir_location ir,
                \<lparr>entrypoint = 0, block_first = fst (ir_location ir),
                 block_last = ir_end ir - 1\<rparr>)]\<rparr>,
           invalidate_entire_cache := False,
           invalid_cache_ranges := {},
           calls := calls s @
              [EvGetBasicBlock (GetUniqueHash (jit_state s)), EvSpaceRemaining,
               EvResetRSB, EvBlockOfCodeClearCache, EvEmitterClearCache,
               EvTranslate (GetUniqueHash (jit_state s)), EvDeadCodeElimination,
               EvVerificationPass, EvEmit (ir_location ir)]\<rparr>))"
  by (auto simp add: lookup_defs coordinator_defs Let_def)

theorem GetCurrentBlock_algorithm_witness:
  "GetBasicBlock (emitter compiled_example) (GetUniqueHash (jit_state compiled_example))
     = Some \<lparr>entrypoint = 0, block_first = 0x1000, block_last = 0x1003\<rparr>
   \<and> GetCurrentBlock example_collaborators compiled_example
       = (Inr 0, compiled_example\<lparr>calls := [EvGetBasicBlock (0x1000, 0)]\<rparr>)
   \<and> GetBasicBlock (emitter fresh_example) (GetUniqueHash (jit_state fresh_example)) = None
   \<and> \<not> SpaceRemaining (block_of_code fresh_example) < MINIMUM_REMAINING_CODESIZE
   \<and> fst (GetCurrentBlock example_collaborators fresh_example) = Inr 0
   \<and> calls (snd (GetCurrentBlock example_collaborators fresh_example))
       = [EvGetBasicBlock (0, 0), EvSpaceRemaining, EvTranslate (0, 0),
          EvDeadCodeElimination, EvVerificationPass, EvEmit (0, 0)]
   \<and> GetBasicBlock (emitter pressured_example) (GetUniqueHash (jit_state pressured_example))
       = None
   \<and> SpaceRemaining (block_of_code pressured_example) < MINIMUM_REMAINING_CODESIZE
   \<and> fst (GetCurrentBlock example_collaborators pressured_example) = Inr 0
   \<and> calls (snd (GetCurrentBlock example_collaborators pressured_example))
       = [EvGetBasicBlock (0x2000, 0), EvSpaceRemaining, EvResetRSB,
          EvBlockOfCodeClearCache, EvEmitterClearCache, EvTranslate (0x2000, 0),
          EvDeadCodeElimination, EvVerificationPass, EvEmit (0x2000, 0)]
   \<and> block_descriptors (emitter (snd (GetCurrentBlock example_collaborators pressured_example)))
       = [((0x2000, 0), \<lparr>entrypoint = 0, block_first = 0x2000, block_last = 0x2003\<rparr>)]"
proof -
  let ?c = example_collaborators
  let ?b = "\<lparr>entrypoint = 0, block_first = 0x1000, block_last = 0x1003\<rparr> :: BlockDescriptor"
  have h1: "GetBasicBlock (emitter compiled_example) (GetUniqueHash (jit_state compiled_example))
              = Some ?b"
    by (simp add: example_defs GetBasicBlock_def GetUniqueHash_def)
  have r1: "GetCurrentBlock ?c compiled_example
              = (Inr 0, compiled_example\<lparr>calls := [EvGetBasicBlock (0x1000, 0)]\<rparr>)"
    using GetCurrentBlock_algorithm [where s = compiled_example and b = ?b and c = ?c,
        THEN conjunct1, rule_format, OF h1]
    by (simp add: example_defs GetUniqueHash_def)
  let ?i2 = "\<lparr>ir_location = (0, 0), ir_end = 4, ir_insts = [0]\<rparr> :: IRBlock"
  have m2: "GetBasicBlock (emitter fresh_example) (GetUniqueHash (jit_state fresh_example)) = None"
    and i2: "?i2 = DeadCodeElimination ?c
                (Translate ?c (GetUniqueHash (jit_state fresh_example)) (MemoryReadCode ?c))"
    and v2: "VerificationPass ?c ?i2"
    and l2: "\<not> SpaceRemaining (block_of_code fresh_example) < MINIMUM_REMAINING_CODESIZE"
    by (simp_all add: example_defs GetBasicBlock_def GetUniqueHash_def SpaceRemaining_def
          MINIMUM_REMAINING_CODESIZE_def)
  have r2: "fst (GetCurrentBlock ?c fresh_example) = Inr 0"
    "calls (snd (GetCurrentBlock ?c fresh_example))
       = [EvGetBasicBlock (0, 0), EvSpaceRemaining, EvTranslate (0, 0),
          EvDeadCodeElimination, EvVerificationPass, EvEmit (0, 0)]"
    using GetCurrentBlock_algorithm [where s = fresh_example and c = ?c and ir = ?i2,
        THEN conjunct2, THEN conjunct1, rule_format, OF conjI [OF m2 conjI [OF i2 conjI [OF v2 l2]]]]
    by (simp_all add: example_defs GetUniqueHash_def)
  let ?i3 = "\<lparr>ir_location = (0x2000, 0), ir_end = 0x2004, ir_insts = [0]\<rparr> :: IRBlock"
  have m3: "GetBasicBlock (emitter pressured_example)
              (GetUniqueHash (jit_state pressured_example)) = None"
    and i3: "?i3 = DeadCodeElimination ?c
                (Translate ?c (GetUniqueHash (jit_state pressured_example)) (MemoryReadCode ?c))"
    and v3: "VerificationPass ?c ?i3"
    and l3: "SpaceRemaining (block_of_code pressured_example) < MINIMUM_REMAINING_CODESIZE"
    by (simp_all add: example_defs GetBasicBlock_def GetUniqueHash_def SpaceRemaining_def
          MINIMUM_REMAINING_CODESIZE_def)
  have r3: "fst (GetCurrentBlock ?c pressured_example) = Inr 0"
    "calls (snd (GetCurrentBlock ?c pressured_example))
       = [EvGetBasicBlock (0x2000, 0), EvSpaceRemaining, EvResetRSB,
          EvBlockOfCodeClearCache, EvEmitterClearCache, EvTranslate (0x2000, 0),
          EvDeadCodeElimination, EvVerificationPass, EvEmit (0x2000, 0)]"
    "block_descriptors (emitter (snd (GetCurrentBlock ?c pressured_example)))
       = [((0x2000, 0), \<lparr>entrypoint = 0, block_first = 0x2000, block_last = 0x2003\<rparr>)]"
    using GetCurrentBlock_algorithm [where s = pressured_example and c = ?c and ir = ?i3,
        THEN conjunct2, THEN conjunct2, rule_format,
        OF conjI [OF m3 conjI [OF i3 conjI [OF v3 l3]]]]
    by (simp_all add: example_defs GetUniqueHash_def)
  show ?thesis using h1 r1 m2 l2 r2 m3 l3 r3 by blast
qed

text \<open>A block that fails verification stops the lookup with the failed assertion.\<close>
lemma GetCurrentBlock_verification_fails:
  "GetBasicBlock (emitter s) (GetUniqueHash (jit_state s)) = None \<Longrightarrow>
   \<not> VerificationPass c
       (DeadCodeElimination c (Translate c (GetUniqueHash (jit_state s)) (MemoryReadCode c))) \<Longrightarrow>
   fst (GetCurrentBlock c s) = Inl AssertionFailed"
  by (simp add: GetCurrentBlock_def record_call_def Let_def)

subsection \<open>The interval of a range invalidation\<close>

lemma interval_is_byte_range:
  assumes "n \<noteq> 0" "unat a + unat n \<le> 2 ^ 64"
  shows "{a..a + n - 1} = byte_range (a::u64) n"
proof -
  have n1: "1 \<le> unat n" using assms(1) by (simp add: unat_gt_0 Suc_le_eq)
  have "unat (a + (n - 1)) = unat a + unat (n - 1)"
    using assms n1 by (simp add: unat_add_lem [THEN iffD1] unat_minus_one)
  hence e: "unat (a + n - 1) = unat a + unat n - 1"
    using assms(1) n1 by (simp add: unat_minus_one add_diff_eq)
  show ?thesis
    using n1 by (auto simp: byte_range_def word_le_nat_alt e)
qed

lemma interval_wrapped_empty:
  assumes "n \<noteq> 0" "2 ^ 64 < unat a + unat n"
  shows "{a..a + n - 1} = ({}::u64 set)"
proof -
  have n1: "1 \<le> unat n" using assms(1) by (simp add: unat_gt_0 Suc_le_eq)
  have nb: "unat n < 2 ^ 64" using unsigned_less [of n, where 'a = nat] by simp
  have ab: "unat a < 2 ^ 64" using unsigned_less [of a, where 'a = nat] by simp
  have "unat (a + (n - 1)) = (unat a + unat (n - 1)) mod 2 ^ 64"
    by (simp add: unat_word_ariths)
  also have "\<dots> = (unat a + unat n - 1) mod 2 ^ 64"
    using assms(1) n1 by (simp add: unat_minus_one)
  also have "\<dots> = unat a + unat n - 1 - 2 ^ 64"
    using assms(2) nb ab by (simp add: mod_if)
  finally have "unat (a + n - 1) < unat a"
    using nb assms(2) by (simp add: add_diff_eq)
  then show ?thesis by (simp add: word_le_nat_alt)
qed

lemma interval_zero_length:
  "({a..a + 0 - 1} = ({}::u64 set)) = (a \<noteq> 0)"
proof (cases "a = 0")
  case True
  then show ?thesis by simp
next
  case False
  then have "unat (a - 1) < unat a" by (simp add: unat_minus_one unat_gt_0)
  then show ?thesis using False by (simp add: word_le_nat_alt)
qed

lemma interval_byte_range_iff:
  "({a..a + n - 1} = byte_range (a::u64) n) =
     (n = 0 \<and> a \<noteq> 0 \<or> n \<noteq> 0 \<and> unat a + unat n \<le> 2 ^ 64)"
proof (cases "n = 0")
  case True
  have "byte_range a 0 = {}" by (simp add: byte_range_def)
  then show ?thesis using True interval_zero_length [of a] by simp
next
  case False
  show ?thesis
  proof (cases "unat a + unat n \<le> 2 ^ 64")
    case True
    then show ?thesis using False interval_is_byte_range [of n a] by simp
  next
    case wrap: False
    have "a \<in> byte_range a n" using False by (simp add: byte_range_def unat_gt_0)
    then have "byte_range a n \<noteq> {}" by blast
    then show ?thesis using False wrap interval_wrapped_empty [of n a] by simp
  qed
qed

text \<open>
  What the code computes, for every \<open>start\<close> and \<open>len\<close>: it merges the closed
  interval from \<open>start\<close> to \<open>start + len - 1\<close>, taken modulo \<open>2^64\<close>, into the
  set and then makes the request. That interval is the byte range
  \<open>[start, start + len)\<close> exactly when \<open>len\<close> is at least 1 and \<open>start + len\<close>
  does not exceed \<open>2^64\<close>, or \<open>len\<close> is 0 and \<open>start\<close> is not 0.
\<close>
lemma InvalidateCacheRange_merges:
  "InvalidateCacheRange a n s =
     RequestCacheInvalidation
       (s\<lparr>invalid_cache_ranges := invalid_cache_ranges s \<union> {a..a + n - 1}\<rparr>)
   \<and> (is_executing s \<longrightarrow>
        invalid_cache_ranges (InvalidateCacheRange a n s)
          = invalid_cache_ranges s \<union> {a..a + n - 1})
   \<and> (({a..a + n - 1} = byte_range a n) =
        (n = 0 \<and> a \<noteq> 0 \<or> n \<noteq> 0 \<and> unat a + unat n \<le> 2 ^ 64))"
  using interval_byte_range_iff [of a n]
  by (simp add: InvalidateCacheRange_def RequestCacheInvalidation_def Let_def)

lemma whole_address_space: "{0..- 1} = (UNIV::u64 set)"
  by auto

text \<open>
  C8. The claim: for every \<open>start\<close> and \<open>length\<close>, zero and overflowing ones
  included, the interval merged is the closed interval from \<open>start\<close> to
  \<open>start + length - 1\<close> modulo \<open>2^64\<close> and represents the byte range
  \<open>[start, start + length)\<close>. The code computes the upper bound with no guard, and the
  interval is not the byte range at either end. \<^verbatim>\<open>InvalidateCacheRange(0, 0)\<close> merges
  the whole address space, where the byte range is empty: on an idle coordinator it
  discards the block of \<open>0x1000\<close>. A request whose range runs past the end of the
  address space merges the empty interval: \<^verbatim>\<open>InvalidateCacheRange(0xFFFFFFFFFFFFFFFC, 8)\<close>
  records nothing while executing and, on an idle coordinator, changes nothing and leaves
  the block of \<open>0xFFFFFFFFFFFFFFFC\<close> cached, although that address is in the byte
  range; the same request with length 4 discards the block.
\<close>
theorem InvalidateCacheRange_wraps:
  "invalid_cache_ranges (InvalidateCacheRange 0 0 executing_example) = UNIV
   \<and> byte_range 0 0 = {}
   \<and> block_descriptors (emitter compiled_example) \<noteq> []
   \<and> block_descriptors (emitter (InvalidateCacheRange 0 0 compiled_example)) = []
   \<and> invalid_cache_ranges (InvalidateCacheRange 0xFFFFFFFFFFFFFFFC 8 executing_example) = {}
   \<and> 0xFFFFFFFFFFFFFFFC \<in> byte_range 0xFFFFFFFFFFFFFFFC 8
   \<and> GetBasicBlock (emitter top_block_example) (0xFFFFFFFFFFFFFFFC, 0)
       = Some \<lparr>entrypoint = 0, block_first = 0xFFFFFFFFFFFFFFFC,
               block_last = 0xFFFFFFFFFFFFFFFF\<rparr>
   \<and> InvalidateCacheRange 0xFFFFFFFFFFFFFFFC 8 top_block_example = top_block_example
   \<and> block_descriptors (emitter (InvalidateCacheRange 0xFFFFFFFFFFFFFFFC 4 top_block_example))
       = []"
proof -
  have a: "invalid_cache_ranges (InvalidateCacheRange 0 0 executing_example) = UNIV"
    by (simp add: InvalidateCacheRange_def RequestCacheInvalidation_def Let_def example_defs
          whole_address_space)
  have b: "byte_range 0 0 = {}"
    by (simp add: byte_range_def)
  have c: "block_descriptors (emitter compiled_example) \<noteq> []"
    by (simp add: compiled_example_def)
  have d: "block_descriptors (emitter (InvalidateCacheRange 0 0 compiled_example)) = []"
    by (simp add: coordinator_defs Let_def compiled_example_def whole_address_space)
  have e: "invalid_cache_ranges (InvalidateCacheRange 0xFFFFFFFFFFFFFFFC 8 executing_example)
             = {}"
    by (simp add: InvalidateCacheRange_def RequestCacheInvalidation_def Let_def example_defs)
  have f: "0xFFFFFFFFFFFFFFFC \<in> byte_range 0xFFFFFFFFFFFFFFFC 8"
    by (simp add: byte_range_def)
  have g: "GetBasicBlock (emitter top_block_example) (0xFFFFFFFFFFFFFFFC, 0)
       = Some \<lparr>entrypoint = 0, block_first = 0xFFFFFFFFFFFFFFFC,
               block_last = 0xFFFFFFFFFFFFFFFF\<rparr>"
    by (simp add: top_block_example_def GetBasicBlock_def)
  have h: "InvalidateCacheRange 0xFFFFFFFFFFFFFFFC 8 top_block_example = top_block_example"
    by (simp add: coordinator_defs Let_def top_block_example_def)
  have i: "block_descriptors
             (emitter (InvalidateCacheRange 0xFFFFFFFFFFFFFFFC 4 top_block_example)) = []"
    by (simp add: coordinator_defs Let_def top_block_example_def)
  show ?thesis using a b c d e f g h i by blast
qed

subsection \<open>Requests, the run and its drain\<close>

lemma GetCurrentBlock_is_executing:
  "is_executing (snd (GetCurrentBlock c s)) = is_executing s"
  by (simp add: GetCurrentBlock_def Let_def Perform_is_executing record_call_def
        split: option.split prod.split)

lemma request_is_executing:
  "is_executing (ClearCache s) = is_executing s"
  "is_executing (InvalidateCacheRange a n s) = is_executing s"
  "is_executing (HaltExecution s) = is_executing s"
  "is_executing (SetPC v s) = is_executing s"
  by (simp_all add: ClearCache_def InvalidateCacheRange_def RequestCacheInvalidation_def
        Perform_is_executing HaltExecution_def SetPC_def Let_def)

text \<open>Nothing that runs inside \<^verbatim>\<open>RunCode\<close> marks the coordinator idle.\<close>
lemma executing_invariant:
  "is_executing s \<longrightarrow> is_executing (snd (Run c cs s))"
  "is_executing s \<longrightarrow> is_executing (snd (RunCode c cs s))"
  "is_executing s \<longrightarrow> is_executing (snd (invoke_all c cs s))"
  "is_executing s \<longrightarrow> is_executing (snd (invoke c cb s))"
proof (induction c cs s and c cs s and c cs s and c cb s
    rule: Run_RunCode_invoke_all_invoke.induct)
  case (1 c cs s)
  then show ?case by simp
next
  case (2 c cs s)
  then show ?case by (simp add: record_call_def)
next
  case (3 c s)
  then show ?case by simp
next
  case (4 c cb cbs s)
  then show ?case by (auto split: prod.split sum.split)
next
  case (5 c s)
  then show ?case
    using GetCurrentBlock_is_executing [of c s] by (auto split: prod.split sum.split)
next
  case (10 c s)
  then show ?case by (simp add: Reset_def)
qed (simp_all add: request_is_executing)

lemma Run_returns:
  assumes idle: "\<not> is_executing s"
    and run: "RunCode c cs (Run_entry s) = (Inr u, s3)"
  shows "Run c cs s =
           (Inr (), (PerformRequestedCacheInvalidation s3)\<lparr>is_executing := False,
                      calls := calls s3 @ drain_calls s3 @ [EvSetExecuting False]\<rparr>)"
proof -
  have "Run c cs s =
          (Inr (), record_call (EvSetExecuting False)
                     ((PerformRequestedCacheInvalidation s3)\<lparr>is_executing := False\<rparr>))"
    using idle run by (simp add: record_call_def Run_entry_def Let_def)
  then show ?thesis by (simp add: record_call_def Perform_calls)
qed

lemma RunCode_still_executing:
  assumes run: "RunCode c cs (Run_entry s) = (r, s3)"
  shows "is_executing s3"
proof -
  have "is_executing (Run_entry s)" by (simp add: Run_entry_def)
  then have "is_executing (snd (RunCode c cs (Run_entry s)))"
    using executing_invariant(2) by blast
  then show ?thesis by (simp only: run snd_conv)
qed

lemma request_while_executing:
  assumes "is_executing s"
  shows "ClearCache s =
           s\<lparr>jit_state := (jit_state s)\<lparr>halt_requested := True\<rparr>,
             invalidate_entire_cache := True\<rparr>"
    and "InvalidateCacheRange a n s =
           s\<lparr>jit_state := (jit_state s)\<lparr>halt_requested := True\<rparr>,
             invalid_cache_ranges := invalid_cache_ranges s \<union> {a..a + n - 1}\<rparr>"
  using assms
  by (simp_all add: ClearCache_def InvalidateCacheRange_def RequestCacheInvalidation_def Let_def)

lemma request_while_idle:
  assumes "\<not> is_executing s"
  shows "ClearCache s = PerformRequestedCacheInvalidation (s\<lparr>invalidate_entire_cache := True\<rparr>)"
    and "InvalidateCacheRange a n s =
           PerformRequestedCacheInvalidation
             (s\<lparr>invalid_cache_ranges := invalid_cache_ranges s \<union> {a..a + n - 1}\<rparr>)"
  using assms
  by (simp_all add: ClearCache_def InvalidateCacheRange_def RequestCacheInvalidation_def Let_def)

lemma ClearCache_idle_effect:
  assumes "\<not> is_executing s"
  shows "block_descriptors (emitter (ClearCache s)) = []"
    and "code_used (block_of_code (ClearCache s)) = 0"
    and "rsb (jit_state (ClearCache s)) = []"
    and "calls (ClearCache s)
           = calls s @ [EvResetRSB, EvBlockOfCodeClearCache, EvEmitterClearCache]"
  using assms by (simp_all add: coordinator_defs)

lemma InvalidateCacheRange_idle_effect:
  assumes "\<not> is_executing s" "\<not> invalidate_entire_cache s"
  shows "block_descriptors (emitter (InvalidateCacheRange a n s))
           = filter (\<lambda>(loc, d). {block_first d..block_last d}
                                   \<inter> (invalid_cache_ranges s \<union> {a..a + n - 1}) = {})
               (block_descriptors (emitter s))"
    and "block_of_code (InvalidateCacheRange a n s) = block_of_code s"
  using assms by (simp_all add: coordinator_defs Let_def)

text \<open>
  What keeps the record until the drain: the calls other than the lookup leave the caches
  alone and only add to the record, and a lookup that hits, or that misses with at least
  the low-water mark left, leaves the record as it is.
\<close>
lemma requests_keep_record:
  assumes "is_executing s"
    and "cb = CallClearCache \<or> cb = CallInvalidateCacheRange a n \<or> cb = CallHaltExecution
           \<or> cb = CallSetPC v"
  shows "fst (invoke c cb s) = Inr ()"
    and "emitter (snd (invoke c cb s)) = emitter s"
    and "block_of_code (snd (invoke c cb s)) = block_of_code s"
    and "calls (snd (invoke c cb s)) = calls s"
    and "invalid_cache_ranges s \<subseteq> invalid_cache_ranges (snd (invoke c cb s))"
    and "invalidate_entire_cache s \<longrightarrow> invalidate_entire_cache (snd (invoke c cb s))"
  using assms
  by (auto simp: ClearCache_def InvalidateCacheRange_def RequestCacheInvalidation_def
        HaltExecution_def SetPC_def Let_def)

lemma lookup_keeps_record:
  assumes "GetBasicBlock (emitter s) (GetUniqueHash (jit_state s)) \<noteq> None
             \<or> \<not> SpaceRemaining (block_of_code s) < MINIMUM_REMAINING_CODESIZE"
  shows "invalid_cache_ranges (snd (GetCurrentBlock c s)) = invalid_cache_ranges s"
    and "invalidate_entire_cache (snd (GetCurrentBlock c s)) = invalidate_entire_cache s"
  using assms
  by (auto simp: GetCurrentBlock_def record_call_def Let_def split: option.split prod.split)

lemma invoke_all_append:
  "invoke_all c (xs @ ys) s =
     (case invoke_all c xs s of
        (Inl e, s') \<Rightarrow> (Inl e, s')
      | (Inr u, s') \<Rightarrow> invoke_all c ys s')"
  by (induction xs arbitrary: s) (auto split: prod.split sum.split)

text \<open>
  One callback of an executing coordinator, not a lookup that misses under the mark: the
  record only grows and no invalidating call is made.
\<close>
lemma invoke_keeps_record:
  assumes ex: "is_executing s"
    and np: "cb \<noteq> LookupBlock
        \<or> GetBasicBlock (emitter s) (GetUniqueHash (jit_state s)) \<noteq> None
        \<or> \<not> SpaceRemaining (block_of_code s) < MINIMUM_REMAINING_CODESIZE"
    and r: "invoke c cb s = (Inr u, s')"
  shows "invalid_cache_ranges s \<subseteq> invalid_cache_ranges s'"
    and "invalidate_entire_cache s \<longrightarrow> invalidate_entire_cache s'"
    and "\<exists>evs. calls s' = calls s @ evs \<and> list_all (\<lambda>e. \<not> is_drain_event e) evs"
proof -
  have "invalid_cache_ranges s \<subseteq> invalid_cache_ranges s'
      \<and> (invalidate_entire_cache s \<longrightarrow> invalidate_entire_cache s')
      \<and> (\<exists>evs. calls s' = calls s @ evs \<and> list_all (\<lambda>e. \<not> is_drain_event e) evs)"
  proof (cases cb)
    case LookupBlock
    then show ?thesis using ex np r
      by (auto simp: GetCurrentBlock_def record_call_def Let_def Emit_def
            split: option.splits if_splits prod.splits sum.splits)
  next
    case CallClearCache
    then show ?thesis using ex r
      by (auto simp: ClearCache_def RequestCacheInvalidation_def)
  next
    case (CallInvalidateCacheRange a n)
    then show ?thesis using ex r
      by (auto simp: InvalidateCacheRange_def RequestCacheInvalidation_def Let_def)
  next
    case CallHaltExecution
    then show ?thesis using r by (auto simp: HaltExecution_def)
  next
    case (CallSetPC v)
    then show ?thesis using r by (auto simp: SetPC_def)
  next
    case CallReset
    then show ?thesis using ex r by (simp add: Reset_def)
  next
    case (CallRun cs)
    then show ?thesis using ex r by simp
  qed
  then show "invalid_cache_ranges s \<subseteq> invalid_cache_ranges s'"
    and "invalidate_entire_cache s \<longrightarrow> invalidate_entire_cache s'"
    and "\<exists>evs. calls s' = calls s @ evs \<and> list_all (\<lambda>e. \<not> is_drain_event e) evs"
    by blast+
qed

lemma invoke_all_keeps_record:
  "is_executing s \<Longrightarrow> no_pressure_miss c cs s \<Longrightarrow> invoke_all c cs s = (Inr u, s') \<Longrightarrow>
     invalid_cache_ranges s \<subseteq> invalid_cache_ranges s'
   \<and> (invalidate_entire_cache s \<longrightarrow> invalidate_entire_cache s')
   \<and> (\<exists>evs. calls s' = calls s @ evs \<and> list_all (\<lambda>e. \<not> is_drain_event e) evs)"
proof (induction cs arbitrary: s)
  case Nil
  then show ?case by simp
next
  case (Cons cb cbs)
  obtain r s1 where i: "invoke c cb s = (r, s1)" by (cases "invoke c cb s")
  with Cons.prems(3) obtain v where rv: "r = Inr v"
    by (cases r) auto
  have rest: "invoke_all c cbs s1 = (Inr u, s')"
    using Cons.prems(3) i rv by simp
  have ex1: "is_executing s1"
    using executing_invariant(4) [of s c cb] Cons.prems(1) i by simp
  have np1: "no_pressure_miss c cbs s1"
    using Cons.prems(2) i by simp
  have np0: "cb \<noteq> LookupBlock
        \<or> GetBasicBlock (emitter s) (GetUniqueHash (jit_state s)) \<noteq> None
        \<or> \<not> SpaceRemaining (block_of_code s) < MINIMUM_REMAINING_CODESIZE"
    using Cons.prems(2) by simp
  note step = invoke_keeps_record [OF Cons.prems(1) np0 i [unfolded rv]]
  note ih = Cons.IH [OF ex1 np1 rest]
  from step(3) obtain e1
    where e1: "calls s1 = calls s @ e1" "list_all (\<lambda>e. \<not> is_drain_event e) e1"
    by blast
  from ih obtain e2
    where e2: "calls s' = calls s1 @ e2" "list_all (\<lambda>e. \<not> is_drain_event e) e2"
    by blast
  have "calls s' = calls s @ (e1 @ e2) \<and> list_all (\<lambda>e. \<not> is_drain_event e) (e1 @ e2)"
    using e1 e2 by simp
  then have "\<exists>evs. calls s' = calls s @ evs \<and> list_all (\<lambda>e. \<not> is_drain_event e) evs"
    by blast
  then show ?case using step(1,2) ih by blast
qed

lemma Perform_removes_recorded:
  assumes "R \<subseteq> invalid_cache_ranges s"
  shows "\<forall>(loc, d) \<in> set (block_descriptors (emitter (PerformRequestedCacheInvalidation s))).
           {block_first d..block_last d} \<inter> R = {}"
  using assms by (auto simp: coordinator_defs Let_def)

lemma Perform_full_clear:
  assumes "invalidate_entire_cache s"
  shows "block_descriptors (emitter (PerformRequestedCacheInvalidation s)) = []"
    and "code_used (block_of_code (PerformRequestedCacheInvalidation s)) = 0"
  using assms by (simp_all add: coordinator_defs Let_def)

text \<open>
  A range requested during a run, with no lookup miss under the mark after it, reaches the
  drain of that run.
\<close>
lemma range_request_drained:
  assumes idle: "\<not> is_executing s"
    and pre: "RunCode c pre (Run_entry s) = (Inr u, s1)"
    and post: "invoke_all c post (InvalidateCacheRange a n s1) = (Inr v, s3)"
    and np: "no_pressure_miss c post (InvalidateCacheRange a n s1)"
  shows "fst (Run c (pre @ CallInvalidateCacheRange a n # post) s) = Inr ()"
    and "{a..a + n - 1} \<subseteq> invalid_cache_ranges s3"
    and "\<exists>evs. calls s3 = calls s1 @ evs \<and> list_all (\<lambda>e. \<not> is_drain_event e) evs"
    and "calls (snd (Run c (pre @ CallInvalidateCacheRange a n # post) s))
           = calls s3 @ drain_calls s3 @ [EvSetExecuting False]"
    and "{a..a + n - 1} \<noteq> {} \<longrightarrow>
           drain_calls s3 = [EvResetRSB, EvBlockOfCodeClearCache, EvEmitterClearCache]
         \<or> drain_calls s3 = [EvResetRSB, EvInvalidateCacheRanges (invalid_cache_ranges s3)]"
    and "\<forall>(loc, d) \<in> set (block_descriptors
             (emitter (snd (Run c (pre @ CallInvalidateCacheRange a n # post) s)))).
           {block_first d..block_last d} \<inter> {a..a + n - 1} = {}"
    and "\<not> invalidate_entire_cache (snd (Run c (pre @ CallInvalidateCacheRange a n # post) s))"
    and "invalid_cache_ranges (snd (Run c (pre @ CallInvalidateCacheRange a n # post) s)) = {}"
proof -
  let ?q = "InvalidateCacheRange a n s1"
  let ?cs = "pre @ CallInvalidateCacheRange a n # post"
  have ex1: "is_executing s1" using RunCode_still_executing [OF pre] .
  have exq: "is_executing ?q" using ex1 by (simp add: request_is_executing)
  have q: "?q = s1\<lparr>jit_state := (jit_state s1)\<lparr>halt_requested := True\<rparr>,
                   invalid_cache_ranges := invalid_cache_ranges s1 \<union> {a..a + n - 1}\<rparr>"
    using request_while_executing(2) [OF ex1] .
  have rc: "RunCode c ?cs (Run_entry s) = (Inr v, s3)"
    using pre post by (simp add: invoke_all_append)
  note k = invoke_all_keeps_record [OF exq np post]
  have "{a..a + n - 1} \<subseteq> invalid_cache_ranges ?q" by (subst q) simp
  then show rec: "{a..a + n - 1} \<subseteq> invalid_cache_ranges s3" using k by blast
  have "calls ?q = calls s1" by (subst q) simp
  then show "\<exists>evs. calls s3 = calls s1 @ evs \<and> list_all (\<lambda>e. \<not> is_drain_event e) evs"
    using k by simp
  note r = Run_returns [OF idle rc]
  show "fst (Run c ?cs s) = Inr ()" by (simp only: r fst_conv)
  show "calls (snd (Run c ?cs s)) = calls s3 @ drain_calls s3 @ [EvSetExecuting False]"
    unfolding r by simp
  show "{a..a + n - 1} \<noteq> {} \<longrightarrow>
           drain_calls s3 = [EvResetRSB, EvBlockOfCodeClearCache, EvEmitterClearCache]
         \<or> drain_calls s3 = [EvResetRSB, EvInvalidateCacheRanges (invalid_cache_ranges s3)]"
    using rec by (auto simp: drain_calls_def)
  have "emitter (snd (Run c ?cs s)) = emitter (PerformRequestedCacheInvalidation s3)"
    unfolding r by simp
  then show "\<forall>(loc, d) \<in> set (block_descriptors (emitter (snd (Run c ?cs s)))).
           {block_first d..block_last d} \<inter> {a..a + n - 1} = {}"
    using Perform_removes_recorded [OF rec] by simp
  show "\<not> invalidate_entire_cache (snd (Run c ?cs s))"
    unfolding r by (simp add: Perform_nothing_pending)
  show "invalid_cache_ranges (snd (Run c ?cs s)) = {}"
    unfolding r by (simp add: Perform_nothing_pending)
qed

text \<open>The same for a full clear requested during a run.\<close>
lemma clear_request_drained:
  assumes idle: "\<not> is_executing s"
    and pre: "RunCode c pre (Run_entry s) = (Inr u, s1)"
    and post: "invoke_all c post (ClearCache s1) = (Inr v, s3)"
    and np: "no_pressure_miss c post (ClearCache s1)"
  shows "fst (Run c (pre @ CallClearCache # post) s) = Inr ()"
    and "invalidate_entire_cache s3"
    and "\<exists>evs. calls s3 = calls s1 @ evs \<and> list_all (\<lambda>e. \<not> is_drain_event e) evs"
    and "calls (snd (Run c (pre @ CallClearCache # post) s))
           = calls s3 @ [EvResetRSB, EvBlockOfCodeClearCache, EvEmitterClearCache,
                         EvSetExecuting False]"
    and "block_descriptors (emitter (snd (Run c (pre @ CallClearCache # post) s))) = []"
    and "code_used (block_of_code (snd (Run c (pre @ CallClearCache # post) s))) = 0"
    and "\<not> invalidate_entire_cache (snd (Run c (pre @ CallClearCache # post) s))"
    and "invalid_cache_ranges (snd (Run c (pre @ CallClearCache # post) s)) = {}"
proof -
  let ?q = "ClearCache s1"
  let ?cs = "pre @ CallClearCache # post"
  have ex1: "is_executing s1" using RunCode_still_executing [OF pre] .
  have exq: "is_executing ?q" using ex1 by (simp add: request_is_executing)
  have q: "?q = s1\<lparr>jit_state := (jit_state s1)\<lparr>halt_requested := True\<rparr>,
                   invalidate_entire_cache := True\<rparr>"
    using request_while_executing(1) [OF ex1] .
  have rc: "RunCode c ?cs (Run_entry s) = (Inr v, s3)"
    using pre post by (simp add: invoke_all_append)
  note k = invoke_all_keeps_record [OF exq np post]
  have "invalidate_entire_cache ?q" by (subst q) simp
  then show rec: "invalidate_entire_cache s3" using k by blast
  have "calls ?q = calls s1" by (subst q) simp
  then show "\<exists>evs. calls s3 = calls s1 @ evs \<and> list_all (\<lambda>e. \<not> is_drain_event e) evs"
    using k by simp
  note r = Run_returns [OF idle rc]
  show "fst (Run c ?cs s) = Inr ()" by (simp only: r fst_conv)
  show "calls (snd (Run c ?cs s))
           = calls s3 @ [EvResetRSB, EvBlockOfCodeClearCache, EvEmitterClearCache,
                         EvSetExecuting False]"
    unfolding r using rec by (simp add: drain_calls_def)
  show "block_descriptors (emitter (snd (Run c ?cs s))) = []"
    unfolding r using Perform_full_clear(1) [OF rec] by simp
  show "code_used (block_of_code (snd (Run c ?cs s))) = 0"
    unfolding r using Perform_full_clear(2) [OF rec] by simp
  show "\<not> invalidate_entire_cache (snd (Run c ?cs s))"
    unfolding r by (simp add: Perform_nothing_pending)
  show "invalid_cache_ranges (snd (Run c ?cs s)) = {}"
    unfolding r by (simp add: Perform_nothing_pending)
qed

text \<open>
  C1, as amended. A request (\<^verbatim>\<open>ClearCache\<close> or \<^verbatim>\<open>InvalidateCacheRange\<close>) made
  while executing only sets the halt-request flag and records the invalidation: the
  caches and every other member stay as they are, and no call is made. A request made
  while idle performs the invalidation before it returns: after \<^verbatim>\<open>ClearCache\<close> the
  block table and the code buffer are empty, after \<^verbatim>\<open>InvalidateCacheRange\<close> the
  blocks that meet the recorded ranges are gone, and nothing is pending. When the
  generated code returns to \<^verbatim>\<open>Run\<close>, what is recorded at that moment is performed
  once, as the last calls before the coordinator is marked idle, and nothing is pending
  when \<^verbatim>\<open>Run\<close> returns. And a request made during a run is recorded at that
  moment, unless a lookup of the generated code misses under the low-water mark later in
  the same run: for a run that returns and has no such lookup after the request, the
  requested range (or the full clear) is still recorded when the generated code returns,
  no invalidating call is made between the request and that return, the drain at the
  return of \<^verbatim>\<open>Run\<close> performs it once, and afterwards no cached block meets the
  requested range (after a requested clear, the block table and the code buffer are
  empty).
\<close>
theorem deferred_invalidation:
  "(is_executing s \<longrightarrow>
      ClearCache s =
        s\<lparr>jit_state := (jit_state s)\<lparr>halt_requested := True\<rparr>,
          invalidate_entire_cache := True\<rparr>
    \<and> InvalidateCacheRange a n s =
        s\<lparr>jit_state := (jit_state s)\<lparr>halt_requested := True\<rparr>,
          invalid_cache_ranges := invalid_cache_ranges s \<union> {a..a + n - 1}\<rparr>)
   \<and> (\<not> is_executing s \<longrightarrow>
      ClearCache s = PerformRequestedCacheInvalidation (s\<lparr>invalidate_entire_cache := True\<rparr>)
    \<and> block_descriptors (emitter (ClearCache s)) = []
    \<and> code_used (block_of_code (ClearCache s)) = 0
    \<and> \<not> invalidate_entire_cache (ClearCache s) \<and> invalid_cache_ranges (ClearCache s) = {}
    \<and> InvalidateCacheRange a n s =
        PerformRequestedCacheInvalidation
          (s\<lparr>invalid_cache_ranges := invalid_cache_ranges s \<union> {a..a + n - 1}\<rparr>)
    \<and> (\<not> invalidate_entire_cache s \<longrightarrow>
         block_descriptors (emitter (InvalidateCacheRange a n s))
           = filter (\<lambda>(loc, d). {block_first d..block_last d}
                                   \<inter> (invalid_cache_ranges s \<union> {a..a + n - 1}) = {})
               (block_descriptors (emitter s)))
    \<and> \<not> invalidate_entire_cache (InvalidateCacheRange a n s)
    \<and> invalid_cache_ranges (InvalidateCacheRange a n s) = {})
   \<and> (\<not> is_executing s \<and> RunCode c cs (Run_entry s) = (Inr u, s3) \<longrightarrow>
      fst (Run c cs s) = Inr ()
    \<and> calls (snd (Run c cs s)) = calls s3 @ drain_calls s3 @ [EvSetExecuting False]
    \<and> emitter (snd (Run c cs s)) = emitter (PerformRequestedCacheInvalidation s3)
    \<and> block_of_code (snd (Run c cs s)) = block_of_code (PerformRequestedCacheInvalidation s3)
    \<and> \<not> invalidate_entire_cache (snd (Run c cs s))
    \<and> invalid_cache_ranges (snd (Run c cs s)) = {})
   \<and> (\<not> is_executing s \<and> RunCode c pre (Run_entry s) = (Inr u, s1)
        \<and> invoke_all c post (InvalidateCacheRange a n s1) = (Inr v, s3)
        \<and> no_pressure_miss c post (InvalidateCacheRange a n s1) \<longrightarrow>
      fst (Run c (pre @ CallInvalidateCacheRange a n # post) s) = Inr ()
    \<and> {a..a + n - 1} \<subseteq> invalid_cache_ranges s3
    \<and> (\<exists>evs. calls s3 = calls s1 @ evs \<and> list_all (\<lambda>e. \<not> is_drain_event e) evs)
    \<and> calls (snd (Run c (pre @ CallInvalidateCacheRange a n # post) s))
         = calls s3 @ drain_calls s3 @ [EvSetExecuting False]
    \<and> ({a..a + n - 1} \<noteq> {} \<longrightarrow>
           drain_calls s3 = [EvResetRSB, EvBlockOfCodeClearCache, EvEmitterClearCache]
         \<or> drain_calls s3 = [EvResetRSB, EvInvalidateCacheRanges (invalid_cache_ranges s3)])
    \<and> (\<forall>(loc, d) \<in> set (block_descriptors
             (emitter (snd (Run c (pre @ CallInvalidateCacheRange a n # post) s)))).
           {block_first d..block_last d} \<inter> {a..a + n - 1} = {})
    \<and> \<not> invalidate_entire_cache (snd (Run c (pre @ CallInvalidateCacheRange a n # post) s))
    \<and> invalid_cache_ranges (snd (Run c (pre @ CallInvalidateCacheRange a n # post) s)) = {})
   \<and> (\<not> is_executing s \<and> RunCode c pre (Run_entry s) = (Inr u, s1)
        \<and> invoke_all c post (ClearCache s1) = (Inr v, s3)
        \<and> no_pressure_miss c post (ClearCache s1) \<longrightarrow>
      fst (Run c (pre @ CallClearCache # post) s) = Inr ()
    \<and> invalidate_entire_cache s3
    \<and> (\<exists>evs. calls s3 = calls s1 @ evs \<and> list_all (\<lambda>e. \<not> is_drain_event e) evs)
    \<and> calls (snd (Run c (pre @ CallClearCache # post) s))
         = calls s3 @ [EvResetRSB, EvBlockOfCodeClearCache, EvEmitterClearCache,
                       EvSetExecuting False]
    \<and> block_descriptors (emitter (snd (Run c (pre @ CallClearCache # post) s))) = []
    \<and> code_used (block_of_code (snd (Run c (pre @ CallClearCache # post) s))) = 0
    \<and> \<not> invalidate_entire_cache (snd (Run c (pre @ CallClearCache # post) s))
    \<and> invalid_cache_ranges (snd (Run c (pre @ CallClearCache # post) s)) = {})"
proof -
  have p1: "is_executing s \<longrightarrow>
      ClearCache s =
        s\<lparr>jit_state := (jit_state s)\<lparr>halt_requested := True\<rparr>,
          invalidate_entire_cache := True\<rparr>
    \<and> InvalidateCacheRange a n s =
        s\<lparr>jit_state := (jit_state s)\<lparr>halt_requested := True\<rparr>,
          invalid_cache_ranges := invalid_cache_ranges s \<union> {a..a + n - 1}\<rparr>"
    using request_while_executing by blast
  have p2: "\<not> is_executing s \<longrightarrow>
      ClearCache s = PerformRequestedCacheInvalidation (s\<lparr>invalidate_entire_cache := True\<rparr>)
    \<and> block_descriptors (emitter (ClearCache s)) = []
    \<and> code_used (block_of_code (ClearCache s)) = 0
    \<and> \<not> invalidate_entire_cache (ClearCache s) \<and> invalid_cache_ranges (ClearCache s) = {}
    \<and> InvalidateCacheRange a n s =
        PerformRequestedCacheInvalidation
          (s\<lparr>invalid_cache_ranges := invalid_cache_ranges s \<union> {a..a + n - 1}\<rparr>)
    \<and> (\<not> invalidate_entire_cache s \<longrightarrow>
         block_descriptors (emitter (InvalidateCacheRange a n s))
           = filter (\<lambda>(loc, d). {block_first d..block_last d}
                                   \<inter> (invalid_cache_ranges s \<union> {a..a + n - 1}) = {})
               (block_descriptors (emitter s)))
    \<and> \<not> invalidate_entire_cache (InvalidateCacheRange a n s)
    \<and> invalid_cache_ranges (InvalidateCacheRange a n s) = {}"
  proof (intro impI conjI)
    assume idle: "\<not> is_executing s"
    show "ClearCache s
            = PerformRequestedCacheInvalidation (s\<lparr>invalidate_entire_cache := True\<rparr>)"
      using request_while_idle(1) [OF idle] .
    show "block_descriptors (emitter (ClearCache s)) = []"
      using ClearCache_idle_effect(1) [OF idle] .
    show "code_used (block_of_code (ClearCache s)) = 0"
      using ClearCache_idle_effect(2) [OF idle] .
    show "\<not> invalidate_entire_cache (ClearCache s)"
      by (simp only: request_while_idle(1) [OF idle] Perform_nothing_pending not_False_eq_True)
    show "invalid_cache_ranges (ClearCache s) = {}"
      by (simp only: request_while_idle(1) [OF idle] Perform_nothing_pending)
    show "InvalidateCacheRange a n s =
        PerformRequestedCacheInvalidation
          (s\<lparr>invalid_cache_ranges := invalid_cache_ranges s \<union> {a..a + n - 1}\<rparr>)"
      using request_while_idle(2) [OF idle] .
    show "\<not> invalidate_entire_cache (InvalidateCacheRange a n s)"
      by (simp only: request_while_idle(2) [OF idle] Perform_nothing_pending not_False_eq_True)
    show "invalid_cache_ranges (InvalidateCacheRange a n s) = {}"
      by (simp only: request_while_idle(2) [OF idle] Perform_nothing_pending)
    assume "\<not> invalidate_entire_cache s"
    then show "block_descriptors (emitter (InvalidateCacheRange a n s))
           = filter (\<lambda>(loc, d). {block_first d..block_last d}
                                   \<inter> (invalid_cache_ranges s \<union> {a..a + n - 1}) = {})
               (block_descriptors (emitter s))"
      using InvalidateCacheRange_idle_effect(1) [OF idle] by blast
  qed
  have p3: "\<not> is_executing s \<and> RunCode c cs (Run_entry s) = (Inr u, s3) \<longrightarrow>
      fst (Run c cs s) = Inr ()
    \<and> calls (snd (Run c cs s)) = calls s3 @ drain_calls s3 @ [EvSetExecuting False]
    \<and> emitter (snd (Run c cs s)) = emitter (PerformRequestedCacheInvalidation s3)
    \<and> block_of_code (snd (Run c cs s)) = block_of_code (PerformRequestedCacheInvalidation s3)
    \<and> \<not> invalidate_entire_cache (snd (Run c cs s))
    \<and> invalid_cache_ranges (snd (Run c cs s)) = {}"
  proof (intro impI)
    assume h: "\<not> is_executing s \<and> RunCode c cs (Run_entry s) = (Inr u, s3)"
    note r = Run_returns [OF h [THEN conjunct1] h [THEN conjunct2]]
    show "fst (Run c cs s) = Inr ()
      \<and> calls (snd (Run c cs s)) = calls s3 @ drain_calls s3 @ [EvSetExecuting False]
      \<and> emitter (snd (Run c cs s)) = emitter (PerformRequestedCacheInvalidation s3)
      \<and> block_of_code (snd (Run c cs s)) = block_of_code (PerformRequestedCacheInvalidation s3)
      \<and> \<not> invalidate_entire_cache (snd (Run c cs s))
      \<and> invalid_cache_ranges (snd (Run c cs s)) = {}"
      unfolding r by (simp add: Perform_nothing_pending)
  qed
  have p4: "\<not> is_executing s \<and> RunCode c pre (Run_entry s) = (Inr u, s1)
        \<and> invoke_all c post (InvalidateCacheRange a n s1) = (Inr v, s3)
        \<and> no_pressure_miss c post (InvalidateCacheRange a n s1) \<longrightarrow>
      fst (Run c (pre @ CallInvalidateCacheRange a n # post) s) = Inr ()
    \<and> {a..a + n - 1} \<subseteq> invalid_cache_ranges s3
    \<and> (\<exists>evs. calls s3 = calls s1 @ evs \<and> list_all (\<lambda>e. \<not> is_drain_event e) evs)
    \<and> calls (snd (Run c (pre @ CallInvalidateCacheRange a n # post) s))
         = calls s3 @ drain_calls s3 @ [EvSetExecuting False]
    \<and> ({a..a + n - 1} \<noteq> {} \<longrightarrow>
           drain_calls s3 = [EvResetRSB, EvBlockOfCodeClearCache, EvEmitterClearCache]
         \<or> drain_calls s3 = [EvResetRSB, EvInvalidateCacheRanges (invalid_cache_ranges s3)])
    \<and> (\<forall>(loc, d) \<in> set (block_descriptors
             (emitter (snd (Run c (pre @ CallInvalidateCacheRange a n # post) s)))).
           {block_first d..block_last d} \<inter> {a..a + n - 1} = {})
    \<and> \<not> invalidate_entire_cache (snd (Run c (pre @ CallInvalidateCacheRange a n # post) s))
    \<and> invalid_cache_ranges (snd (Run c (pre @ CallInvalidateCacheRange a n # post) s)) = {}"
  proof (intro impI)
    assume h: "\<not> is_executing s \<and> RunCode c pre (Run_entry s) = (Inr u, s1)
        \<and> invoke_all c post (InvalidateCacheRange a n s1) = (Inr v, s3)
        \<and> no_pressure_miss c post (InvalidateCacheRange a n s1)"
    note l = range_request_drained [OF h [THEN conjunct1] h [THEN conjunct2, THEN conjunct1]
        h [THEN conjunct2, THEN conjunct2, THEN conjunct1]
        h [THEN conjunct2, THEN conjunct2, THEN conjunct2]]
    show "fst (Run c (pre @ CallInvalidateCacheRange a n # post) s) = Inr ()
    \<and> {a..a + n - 1} \<subseteq> invalid_cache_ranges s3
    \<and> (\<exists>evs. calls s3 = calls s1 @ evs \<and> list_all (\<lambda>e. \<not> is_drain_event e) evs)
    \<and> calls (snd (Run c (pre @ CallInvalidateCacheRange a n # post) s))
         = calls s3 @ drain_calls s3 @ [EvSetExecuting False]
    \<and> ({a..a + n - 1} \<noteq> {} \<longrightarrow>
           drain_calls s3 = [EvResetRSB, EvBlockOfCodeClearCache, EvEmitterClearCache]
         \<or> drain_calls s3 = [EvResetRSB, EvInvalidateCacheRanges (invalid_cache_ranges s3)])
    \<and> (\<forall>(loc, d) \<in> set (block_descriptors
             (emitter (snd (Run c (pre @ CallInvalidateCacheRange a n # post) s)))).
           {block_first d..block_last d} \<inter> {a..a + n - 1} = {})
    \<and> \<not> invalidate_entire_cache (snd (Run c (pre @ CallInvalidateCacheRange a n # post) s))
    \<and> invalid_cache_ranges (snd (Run c (pre @ CallInvalidateCacheRange a n # post) s)) = {}"
      by (intro conjI) (rule l)+
  qed
  have p5: "\<not> is_executing s \<and> RunCode c pre (Run_entry s) = (Inr u, s1)
        \<and> invoke_all c post (ClearCache s1) = (Inr v, s3)
        \<and> no_pressure_miss c post (ClearCache s1) \<longrightarrow>
      fst (Run c (pre @ CallClearCache # post) s) = Inr ()
    \<and> invalidate_entire_cache s3
    \<and> (\<exists>evs. calls s3 = calls s1 @ evs \<and> list_all (\<lambda>e. \<not> is_drain_event e) evs)
    \<and> calls (snd (Run c (pre @ CallClearCache # post) s))
         = calls s3 @ [EvResetRSB, EvBlockOfCodeClearCache, EvEmitterClearCache,
                       EvSetExecuting False]
    \<and> block_descriptors (emitter (snd (Run c (pre @ CallClearCache # post) s))) = []
    \<and> code_used (block_of_code (snd (Run c (pre @ CallClearCache # post) s))) = 0
    \<and> \<not> invalidate_entire_cache (snd (Run c (pre @ CallClearCache # post) s))
    \<and> invalid_cache_ranges (snd (Run c (pre @ CallClearCache # post) s)) = {}"
  proof (intro impI)
    assume h: "\<not> is_executing s \<and> RunCode c pre (Run_entry s) = (Inr u, s1)
        \<and> invoke_all c post (ClearCache s1) = (Inr v, s3)
        \<and> no_pressure_miss c post (ClearCache s1)"
    note l = clear_request_drained [OF h [THEN conjunct1] h [THEN conjunct2, THEN conjunct1]
        h [THEN conjunct2, THEN conjunct2, THEN conjunct1]
        h [THEN conjunct2, THEN conjunct2, THEN conjunct2]]
    show "fst (Run c (pre @ CallClearCache # post) s) = Inr ()
    \<and> invalidate_entire_cache s3
    \<and> (\<exists>evs. calls s3 = calls s1 @ evs \<and> list_all (\<lambda>e. \<not> is_drain_event e) evs)
    \<and> calls (snd (Run c (pre @ CallClearCache # post) s))
         = calls s3 @ [EvResetRSB, EvBlockOfCodeClearCache, EvEmitterClearCache,
                       EvSetExecuting False]
    \<and> block_descriptors (emitter (snd (Run c (pre @ CallClearCache # post) s))) = []
    \<and> code_used (block_of_code (snd (Run c (pre @ CallClearCache # post) s))) = 0
    \<and> \<not> invalidate_entire_cache (snd (Run c (pre @ CallClearCache # post) s))
    \<and> invalid_cache_ranges (snd (Run c (pre @ CallClearCache # post) s)) = {}"
      by (intro conjI) (rule l)+
  qed
  show ?thesis using p1 p2 p3 p4 p5 by (intro conjI)
qed

lemmas run_defs = Run_entry_def SetPC_def HaltExecution_def drain_calls_def

theorem deferred_invalidation_witness:
  "is_executing (Run_entry compiled_example)
   \<and> emitter (InvalidateCacheRange 0x1000 4 (Run_entry compiled_example))
       = emitter compiled_example
   \<and> block_of_code (ClearCache (Run_entry compiled_example)) = block_of_code compiled_example
   \<and> calls (InvalidateCacheRange 0x1000 4 (Run_entry compiled_example)) = [EvSetExecuting True]
   \<and> invalid_cache_ranges (InvalidateCacheRange 0x1000 4 (Run_entry compiled_example))
       = {0x1000..0x1003}
   \<and> halt_requested (jit_state (InvalidateCacheRange 0x1000 4 (Run_entry compiled_example)))
   \<and> \<not> is_executing compiled_example
   \<and> block_descriptors (emitter compiled_example) \<noteq> []
   \<and> block_descriptors (emitter (ClearCache compiled_example)) = []
   \<and> block_descriptors (emitter (InvalidateCacheRange 0x1000 4 compiled_example)) = []
   \<and> fst (Run example_collaborators [CallInvalidateCacheRange 0x1000 4] compiled_example)
       = Inr ()
   \<and> calls (snd (Run example_collaborators [CallInvalidateCacheRange 0x1000 4]
                   compiled_example))
       = [EvSetExecuting True, EvRunCode, EvResetRSB,
          EvInvalidateCacheRanges {0x1000..0x1003}, EvSetExecuting False]
   \<and> block_descriptors (emitter (snd (Run example_collaborators
        [CallInvalidateCacheRange 0x1000 4] compiled_example))) = []
   \<and> no_pressure_miss example_collaborators [CallHaltExecution, LookupBlock]
        (InvalidateCacheRange 0x1000 4
          (snd (RunCode example_collaborators [LookupBlock] (Run_entry compiled_example))))
   \<and> fst (Run example_collaborators
        [LookupBlock, CallInvalidateCacheRange 0x1000 4, CallHaltExecution, LookupBlock]
        compiled_example) = Inr ()
   \<and> calls (snd (Run example_collaborators
        [LookupBlock, CallInvalidateCacheRange 0x1000 4, CallHaltExecution, LookupBlock]
        compiled_example))
       = [EvSetExecuting True, EvRunCode, EvGetBasicBlock (0x1000, 0),
          EvGetBasicBlock (0x1000, 0), EvResetRSB,
          EvInvalidateCacheRanges {0x1000..0x1003}, EvSetExecuting False]
   \<and> invalid_cache_ranges (snd (Run example_collaborators
        [LookupBlock, CallInvalidateCacheRange 0x1000 4, CallHaltExecution, LookupBlock]
        compiled_example)) = {}
   \<and> no_pressure_miss example_collaborators [CallSetPC 0x2000, LookupBlock]
        (ClearCache
          (snd (RunCode example_collaborators [CallHaltExecution] (Run_entry compiled_example))))
   \<and> fst (Run example_collaborators
        [CallHaltExecution, CallClearCache, CallSetPC 0x2000, LookupBlock]
        compiled_example) = Inr ()
   \<and> calls (snd (Run example_collaborators
        [CallHaltExecution, CallClearCache, CallSetPC 0x2000, LookupBlock]
        compiled_example))
       = [EvSetExecuting True, EvRunCode, EvGetBasicBlock (0x2000, 0), EvSpaceRemaining,
          EvTranslate (0x2000, 0), EvDeadCodeElimination, EvVerificationPass,
          EvEmit (0x2000, 0), EvResetRSB, EvBlockOfCodeClearCache, EvEmitterClearCache,
          EvSetExecuting False]
   \<and> block_descriptors (emitter (snd (Run example_collaborators
        [CallHaltExecution, CallClearCache, CallSetPC 0x2000, LookupBlock]
        compiled_example))) = []"
proof -
  let ?c = example_collaborators
  let ?cs = "[CallInvalidateCacheRange 0x1000 4]"
  let ?e = "Run_entry compiled_example"
  have ex: "is_executing ?e" by (simp add: Run_entry_def)
  have idle: "\<not> is_executing compiled_example" by (simp add: compiled_example_def)
  note t1 = mp [OF deferred_invalidation
      [where s = ?e and a = "0x1000" and n = 4, THEN conjunct1] ex]
  have a: "emitter (InvalidateCacheRange 0x1000 4 ?e) = emitter compiled_example"
    "calls (InvalidateCacheRange 0x1000 4 ?e) = [EvSetExecuting True]"
    "invalid_cache_ranges (InvalidateCacheRange 0x1000 4 ?e) = {0x1000..0x1003}"
    "halt_requested (jit_state (InvalidateCacheRange 0x1000 4 ?e))"
    unfolding t1 [THEN conjunct2] by (simp_all add: example_defs run_defs)
  have a': "block_of_code (ClearCache ?e) = block_of_code compiled_example"
    unfolding t1 [THEN conjunct1] by (simp add: run_defs)
  note t2 = mp [OF deferred_invalidation
      [where s = compiled_example and a = "0x1000" and n = 4, THEN conjunct2, THEN conjunct1]
      idle]
  have b0: "block_descriptors (emitter compiled_example) \<noteq> []"
    and nf: "\<not> invalidate_entire_cache compiled_example"
    by (simp_all add: compiled_example_def)
  have b1: "block_descriptors (emitter (ClearCache compiled_example)) = []"
    using t2 by blast
  have "block_descriptors (emitter (InvalidateCacheRange 0x1000 4 compiled_example))
           = filter (\<lambda>(loc, d). {block_first d..block_last d}
                \<inter> (invalid_cache_ranges compiled_example \<union> {0x1000..0x1000 + 4 - 1}) = {})
               (block_descriptors (emitter compiled_example))"
    using t2 nf by blast
  then have b2: "block_descriptors (emitter (InvalidateCacheRange 0x1000 4 compiled_example)) = []"
    by (simp add: compiled_example_def)
  let ?s3 = "snd (RunCode ?c ?cs ?e)"
  have run: "RunCode ?c ?cs ?e = (Inr (), ?s3)"
    by (simp add: example_defs run_defs coordinator_defs Let_def)
  have s3: "calls ?s3 = [EvSetExecuting True, EvRunCode]"
    "invalid_cache_ranges ?s3 = {0x1000..0x1003}"
    "\<not> invalidate_entire_cache ?s3"
    "block_descriptors (emitter ?s3)
       = [((0x1000, 0), \<lparr>entrypoint = 0, block_first = 0x1000, block_last = 0x1003\<rparr>)]"
    by (simp_all add: example_defs run_defs coordinator_defs Let_def)
  note t3 = mp [OF deferred_invalidation
      [where s = compiled_example and c = ?c and cs = ?cs and u = "()" and ?s3.0 = ?s3,
        THEN conjunct2, THEN conjunct2, THEN conjunct1]
      conjI [OF idle run]]
  have c1: "fst (Run ?c ?cs compiled_example) = Inr ()"
    using t3 by blast
  have "calls (snd (Run ?c ?cs compiled_example))
          = calls ?s3 @ drain_calls ?s3 @ [EvSetExecuting False]"
    using t3 by blast
  then have c2: "calls (snd (Run ?c ?cs compiled_example))
       = [EvSetExecuting True, EvRunCode, EvResetRSB,
          EvInvalidateCacheRanges {0x1000..0x1003}, EvSetExecuting False]"
    by (simp add: s3 drain_calls_def del: RunCode.simps)
  have "emitter (snd (Run ?c ?cs compiled_example))
          = emitter (PerformRequestedCacheInvalidation ?s3)"
    using t3 by blast
  then have c3: "block_descriptors (emitter (snd (Run ?c ?cs compiled_example))) = []"
    by (simp add: s3 coordinator_defs Let_def del: RunCode.simps)

  let ?pre = "[LookupBlock]" and ?post = "[CallHaltExecution, LookupBlock]"
  let ?r1 = "snd (RunCode ?c ?pre ?e)"
  let ?q = "InvalidateCacheRange 0x1000 4 ?r1"
  let ?r3 = "snd (invoke_all ?c ?post ?q)"
  let ?all = "[LookupBlock, CallInvalidateCacheRange 0x1000 4, CallHaltExecution, LookupBlock]"
  have pre: "RunCode ?c ?pre ?e = (Inr (), ?r1)"
    by (simp add: example_defs run_defs lookup_defs coordinator_defs Let_def)
  have post: "invoke_all ?c ?post ?q = (Inr (), ?r3)"
    by (simp add: example_defs run_defs lookup_defs coordinator_defs Let_def)
  have np: "no_pressure_miss ?c ?post ?q"
    by (simp add: example_defs run_defs lookup_defs coordinator_defs Let_def)
  have r3: "calls ?r3 = [EvSetExecuting True, EvRunCode, EvGetBasicBlock (0x1000, 0),
                         EvGetBasicBlock (0x1000, 0)]"
    "drain_calls ?r3 = [EvResetRSB, EvInvalidateCacheRanges {0x1000..0x1003}]"
    by (simp_all add: example_defs run_defs lookup_defs coordinator_defs Let_def)
  have cs4: "?pre @ CallInvalidateCacheRange 0x1000 4 # ?post = ?all" by simp
  note t4 = mp [OF deferred_invalidation
      [where s = compiled_example and c = ?c and pre = ?pre and post = ?post
         and a = "0x1000" and n = 4 and u = "()" and v = "()" and ?s1.0 = ?r1 and ?s3.0 = ?r3,
        THEN conjunct2, THEN conjunct2, THEN conjunct2, THEN conjunct1]
      conjI [OF idle conjI [OF pre conjI [OF post np]]], unfolded cs4]
  have d1: "fst (Run ?c ?all compiled_example) = Inr ()"
    using t4 by blast
  have "calls (snd (Run ?c ?all compiled_example))
          = calls ?r3 @ drain_calls ?r3 @ [EvSetExecuting False]"
    using t4 by blast
  then have d2: "calls (snd (Run ?c ?all compiled_example))
       = [EvSetExecuting True, EvRunCode, EvGetBasicBlock (0x1000, 0),
          EvGetBasicBlock (0x1000, 0), EvResetRSB,
          EvInvalidateCacheRanges {0x1000..0x1003}, EvSetExecuting False]"
    by (simp only: r3 append.simps)
  have d3: "invalid_cache_ranges (snd (Run ?c ?all compiled_example)) = {}"
    using t4 by blast

  let ?pre5 = "[CallHaltExecution]" and ?post5 = "[CallSetPC 0x2000, LookupBlock]"
  let ?u1 = "snd (RunCode ?c ?pre5 ?e)"
  let ?u3 = "snd (invoke_all ?c ?post5 (ClearCache ?u1))"
  let ?all5 = "[CallHaltExecution, CallClearCache, CallSetPC 0x2000, LookupBlock]"
  have pre5: "RunCode ?c ?pre5 ?e = (Inr (), ?u1)"
    by (simp add: example_defs run_defs lookup_defs coordinator_defs Let_def)
  have post5: "invoke_all ?c ?post5 (ClearCache ?u1) = (Inr (), ?u3)"
    by (simp add: example_defs run_defs lookup_defs coordinator_defs Let_def)
  have np5: "no_pressure_miss ?c ?post5 (ClearCache ?u1)"
    by (simp add: example_defs run_defs lookup_defs coordinator_defs Let_def)
  have u3: "calls ?u3 = [EvSetExecuting True, EvRunCode, EvGetBasicBlock (0x2000, 0),
       EvSpaceRemaining, EvTranslate (0x2000, 0), EvDeadCodeElimination, EvVerificationPass,
       EvEmit (0x2000, 0)]"
    by (simp add: example_defs run_defs lookup_defs coordinator_defs Let_def)
  have cs5: "?pre5 @ CallClearCache # ?post5 = ?all5" by simp
  note t5 = mp [OF deferred_invalidation
      [where s = compiled_example and c = ?c and pre = ?pre5 and post = ?post5
         and u = "()" and v = "()" and ?s1.0 = ?u1 and ?s3.0 = ?u3,
        THEN conjunct2, THEN conjunct2, THEN conjunct2, THEN conjunct2]
      conjI [OF idle conjI [OF pre5 conjI [OF post5 np5]]], unfolded cs5]
  have e1: "fst (Run ?c ?all5 compiled_example) = Inr ()"
    using t5 by blast
  have "calls (snd (Run ?c ?all5 compiled_example))
          = calls ?u3 @ [EvResetRSB, EvBlockOfCodeClearCache, EvEmitterClearCache,
                         EvSetExecuting False]"
    using t5 by blast
  then have e2: "calls (snd (Run ?c ?all5 compiled_example))
       = [EvSetExecuting True, EvRunCode, EvGetBasicBlock (0x2000, 0), EvSpaceRemaining,
          EvTranslate (0x2000, 0), EvDeadCodeElimination, EvVerificationPass,
          EvEmit (0x2000, 0), EvResetRSB, EvBlockOfCodeClearCache, EvEmitterClearCache,
          EvSetExecuting False]"
    by (simp only: u3 append.simps)
  have e3: "block_descriptors (emitter (snd (Run ?c ?all5 compiled_example))) = []"
    using t5 by blast
  show ?thesis
    using ex a a' idle b0 b1 b2 c1 c2 c3 np d1 d2 d3 np5 e1 e2 e3 by blast
qed

text \<open>
  The claim as stated, that the recorded invalidation is performed when \<^verbatim>\<open>Run\<close> next
  returns, fails when the generated code goes on to a lookup that misses under the
  low-water mark. After the request the range is recorded and the block is still cached;
  the lookup of \<open>0x2000\<close> then clears the whole cache while the coordinator is
  executing and empties the record, and at the return of \<^verbatim>\<open>Run\<close> no invalidation is
  performed: the last call before the coordinator is marked idle is the emission of the
  new block.
\<close>
theorem deferred_invalidation_counterexample:
  "invalid_cache_ranges
      (snd (RunCode example_collaborators compile_then_request (Run_entry tight_example)))
     = {0x1000..0x1003}
   \<and> GetBasicBlock
        (emitter (snd (RunCode example_collaborators compile_then_request
                         (Run_entry tight_example)))) (0x1000, 0)
       = Some \<lparr>entrypoint = 0, block_first = 0x1000, block_last = 0x1003\<rparr>
   \<and> is_executing
        (snd (RunCode example_collaborators request_then_lookup (Run_entry tight_example)))
   \<and> GetBasicBlock
        (emitter (snd (RunCode example_collaborators request_then_lookup
                         (Run_entry tight_example)))) (0x1000, 0) = None
   \<and> invalid_cache_ranges
        (snd (RunCode example_collaborators request_then_lookup (Run_entry tight_example)))
       = {}
   \<and> fst (Run example_collaborators request_then_lookup tight_example) = Inr ()
   \<and> calls (snd (Run example_collaborators request_then_lookup tight_example))
       = [EvSetExecuting True, EvRunCode,
          EvGetBasicBlock (0x1000, 0), EvSpaceRemaining, EvTranslate (0x1000, 0),
          EvDeadCodeElimination, EvVerificationPass, EvEmit (0x1000, 0),
          EvGetBasicBlock (0x2000, 0), EvSpaceRemaining,
          EvResetRSB, EvBlockOfCodeClearCache, EvEmitterClearCache,
          EvTranslate (0x2000, 0), EvDeadCodeElimination, EvVerificationPass,
          EvEmit (0x2000, 0), EvSetExecuting False]"
  by (simp add: example_defs run_defs lookup_defs coordinator_defs Let_def)

text \<open>
  C2, as amended. When the generated code returns, \<^verbatim>\<open>Run\<close> performs the invalidation
  that accumulated during the execution and then marks the coordinator idle: the drain
  works on a state that is still marked executing, the write of \<^verbatim>\<open>is_executing\<close> is
  the last effect of \<^verbatim>\<open>Run\<close>, after the calls of the drain, and when \<^verbatim>\<open>Run\<close>
  has returned the coordinator is idle and nothing is pending.
\<close>
theorem Run_drains_then_marks_idle:
  "\<not> is_executing s \<Longrightarrow> RunCode c cs (Run_entry s) = (Inr u, s3) \<Longrightarrow>
     Run c cs s =
       (Inr (), (PerformRequestedCacheInvalidation s3)\<lparr>is_executing := False,
                  calls := calls s3 @ drain_calls s3 @ [EvSetExecuting False]\<rparr>)
   \<and> is_executing s3 \<and> is_executing (PerformRequestedCacheInvalidation s3)
   \<and> \<not> IsExecuting (snd (Run c cs s))
   \<and> \<not> invalidate_entire_cache (snd (Run c cs s))
   \<and> invalid_cache_ranges (snd (Run c cs s)) = {}"
proof -
  assume idle: "\<not> is_executing s" and run: "RunCode c cs (Run_entry s) = (Inr u, s3)"
  note r = Run_returns [OF idle run]
  have e: "is_executing s3" using RunCode_still_executing [OF run] .
  have "\<not> IsExecuting (snd (Run c cs s))"
    "\<not> invalidate_entire_cache (snd (Run c cs s))"
    "invalid_cache_ranges (snd (Run c cs s)) = {}"
    unfolding r by (simp_all add: IsExecuting_def Perform_nothing_pending)
  then show ?thesis using r e by (simp add: Perform_is_executing)
qed

theorem Run_drains_then_marks_idle_witness:
  "\<not> is_executing compiled_example
   \<and> fst (RunCode example_collaborators [CallHaltExecution, CallClearCache]
             (Run_entry compiled_example)) = Inr ()
   \<and> is_executing (snd (RunCode example_collaborators [CallHaltExecution, CallClearCache]
                           (Run_entry compiled_example)))
   \<and> fst (Run example_collaborators [CallHaltExecution, CallClearCache] compiled_example)
       = Inr ()
   \<and> \<not> IsExecuting (snd (Run example_collaborators [CallHaltExecution, CallClearCache]
                             compiled_example))
   \<and> calls (snd (Run example_collaborators [CallHaltExecution, CallClearCache]
                   compiled_example))
       = [EvSetExecuting True, EvRunCode, EvResetRSB, EvBlockOfCodeClearCache,
          EvEmitterClearCache, EvSetExecuting False]"
proof -
  let ?c = example_collaborators
  let ?cs = "[CallHaltExecution, CallClearCache]"
  let ?s3 = "snd (RunCode ?c ?cs (Run_entry compiled_example))"
  have idle: "\<not> is_executing compiled_example" by (simp add: compiled_example_def)
  have f: "fst (RunCode ?c ?cs (Run_entry compiled_example)) = Inr ()"
    by (simp add: example_defs run_defs coordinator_defs Let_def)
  have run: "RunCode ?c ?cs (Run_entry compiled_example) = (Inr (), ?s3)"
    by (simp add: example_defs run_defs coordinator_defs Let_def)
  have s3: "calls ?s3 = [EvSetExecuting True, EvRunCode]" "invalidate_entire_cache ?s3"
    by (simp_all add: example_defs run_defs coordinator_defs Let_def)
  note t = Run_drains_then_marks_idle [OF idle run]
  have e: "is_executing ?s3" using t by blast
  have i: "\<not> IsExecuting (snd (Run ?c ?cs compiled_example))" using t by blast
  have r: "Run ?c ?cs compiled_example =
       (Inr (), (PerformRequestedCacheInvalidation ?s3)\<lparr>is_executing := False,
                  calls := calls ?s3 @ drain_calls ?s3 @ [EvSetExecuting False]\<rparr>)"
    using t by blast
  have r1: "fst (Run ?c ?cs compiled_example) = Inr ()"
    by (subst r) simp
  have r2: "calls (snd (Run ?c ?cs compiled_example))
       = [EvSetExecuting True, EvRunCode, EvResetRSB, EvBlockOfCodeClearCache,
          EvEmitterClearCache, EvSetExecuting False]"
    by (subst r) (simp add: s3 drain_calls_def del: RunCode.simps)
  show ?thesis using idle f e r1 i r2 by blast
qed

text \<open>
  The claim as stated puts the two steps in the other order. In a run whose generated code
  has the host call \<^verbatim>\<open>ClearCache\<close>, the three calls of the drain come before the
  write that marks the coordinator idle, which is the last effect of \<^verbatim>\<open>Run\<close>.
\<close>
theorem Run_drains_then_marks_idle_counterexample:
  "calls (snd (Run example_collaborators [CallClearCache] compiled_example))
     = [EvSetExecuting True, EvRunCode, EvResetRSB, EvBlockOfCodeClearCache,
        EvEmitterClearCache, EvSetExecuting False]"
  by (simp add: example_defs run_defs coordinator_defs Let_def)

end
